theory Spec2Isabelle
  imports Main "HOL-Library.Sublist"
begin

section \<open>JavaScript values and string operations\<close>

text \<open>
  A query parameter, an environment variable or a nullable column is a string that may be
  absent. JavaScript's truthiness test (\<^verbatim>\<open>if (x)\<close>, \<^verbatim>\<open>!x\<close>, \<^verbatim>\<open>a && b\<close>) holds for a
  present, non-empty string only.
\<close>

definition truthy :: "string option \<Rightarrow> bool" where
  "truthy v = (case v of None \<Rightarrow> False | Some s \<Rightarrow> s \<noteq> [])"

text \<open>\<^verbatim>\<open>s.includes(t)\<close>: \<open>t\<close> occurs in \<open>s\<close> as a contiguous substring.\<close>

definition str_includes :: "string \<Rightarrow> string \<Rightarrow> bool" where
  "str_includes s t = sublist t s"

text \<open>\<^verbatim>\<open>s.split(d)\<close> for a one-character separator; the empty string gives one empty piece.\<close>

fun split :: "char \<Rightarrow> string \<Rightarrow> string list" where
  "split d [] = [[]]"
| "split d (c # cs) =
     (if c = d then [] # split d cs
      else (case split d cs of [] \<Rightarrow> [[c]] | w # ws \<Rightarrow> (c # w) # ws))"

text \<open>\<^verbatim>\<open>xs.join(d)\<close> for a one-character separator.\<close>

fun join :: "char \<Rightarrow> string list \<Rightarrow> string" where
  "join d [] = []"
| "join d [w] = w"
| "join d (w # v # ws) = w @ d # join d (v # ws)"

text \<open>
  \<^verbatim>\<open>xs.slice(start, end)\<close>: a negative index counts from the end, both indices are clamped
  to the array, and an empty range gives the empty array.
\<close>

definition slice :: "int \<Rightarrow> int \<Rightarrow> 'a list \<Rightarrow> 'a list" where
  "slice start fin xs =
     (let len = int (length xs);
          k = (if start < 0 then max (len + start) 0 else min start len);
          final = (if fin < 0 then max (len + fin) 0 else min fin len)
      in take (nat (final - k)) (drop (nat k) xs))"

text \<open>Removing a literal prefix, as a regular expression's literal head does.\<close>

fun strip_prefix :: "string \<Rightarrow> string \<Rightarrow> string option" where
  "strip_prefix [] s = Some s"
| "strip_prefix (p # ps) [] = None"
| "strip_prefix (p # ps) (c # cs) = (if p = c then strip_prefix ps cs else None)"

text \<open>
  \<^verbatim>\<open>str.match(re)\<close> for an unanchored expression without the global flag: the match
  is tried at every position from the left, and the first position that matches wins.
\<close>

fun regex_search :: "(string \<Rightarrow> 'a option) \<Rightarrow> string \<Rightarrow> 'a option" where
  "regex_search m [] = m []"
| "regex_search m (c # cs) =
     (case m (c # cs) of Some r \<Rightarrow> Some r | None \<Rightarrow> regex_search m cs)"

section \<open>Resource name resolver\<close>

text \<open>
  The expression \<^verbatim>\<open>/https:\/\/([^.]+)\.vercel\.app/\<close> at one position. The group
  \<^verbatim>\<open>[^.]+\<close> is greedy and is followed by a literal dot, so it can only end at the
  first dot: a shorter group would be followed by a character that is not a dot.
\<close>

definition vercel_match_here :: "string \<Rightarrow> string option" where
  "vercel_match_here s =
     (case strip_prefix ''https://'' s of
        None \<Rightarrow> None
      | Some r \<Rightarrow>
          (let g = takeWhile (\<lambda>c. c \<noteq> CHR ''.'') r;
               rest = dropWhile (\<lambda>c. c \<noteq> CHR ''.'') r
           in if g \<noteq> [] \<and> prefix ''.vercel.app'' rest then Some g else None))"

text \<open>\<^verbatim>\<open>extractProjectNameFromUrl\<close> (server/src/index.ts): \<^verbatim>\<open>match ? match[1] : null\<close>.\<close>

definition extractProjectNameFromUrl :: "string \<Rightarrow> string option" where
  "extractProjectNameFromUrl url = regex_search vercel_match_here url"

text \<open>
  The expression \<^verbatim>\<open>/https:\/\/github\.com\/([^\/]+)\/([^\/]+)/\<close> of \<^verbatim>\<open>deleteGitHubRepo\<close>
  at one position: the owner runs to the first slash, the repository to the next slash or
  to the end.
\<close>

definition github_match_here :: "string \<Rightarrow> (string \<times> string) option" where
  "github_match_here s =
     (case strip_prefix ''https://github.com/'' s of
        None \<Rightarrow> None
      | Some r \<Rightarrow>
          (let owner = takeWhile (\<lambda>c. c \<noteq> CHR ''/'') r;
               rest = dropWhile (\<lambda>c. c \<noteq> CHR ''/'') r
           in (case rest of
                 [] \<Rightarrow> None
               | x # rest' \<Rightarrow>
                   (let repo = takeWhile (\<lambda>c. c \<noteq> CHR ''/'') rest'
                    in if owner \<noteq> [] \<and> repo \<noteq> [] then Some (owner, repo) else None))))"

definition parseGitHubRepoUrl :: "string \<Rightarrow> (string \<times> string) option" where
  "parseGitHubRepoUrl repoUrl = regex_search github_match_here repoUrl"

text \<open>A project of the deploy host's listing: the fields the server reads.\<close>

record project =
  name :: string
  ident :: string

text \<open>
  The customer-name heuristic of \<^verbatim>\<open>deleteVercelProject\<close>:
  \<^verbatim>\<open>projectName.split('-').slice(2, -2).join('-')\<close>.
\<close>

definition customerNameOf :: "string \<Rightarrow> string" where
  "customerNameOf projectName = join CHR ''-'' (slice 2 (- 2) (split CHR ''-'' projectName))"

text \<open>
  The three lookups of \<^verbatim>\<open>deleteVercelProject\<close> on the fetched listing, each with
  \<^verbatim>\<open>Array.prototype.find\<close> (the first entry that satisfies the test), a later one only
  when the earlier ones found nothing.
\<close>

definition findProjectFuzzy :: "string \<Rightarrow> project list \<Rightarrow> project option" where
  "findProjectFuzzy projectName projects =
     (case find (\<lambda>p. name p = projectName) projects of
        Some p \<Rightarrow> Some p
      | None \<Rightarrow>
          (case find (\<lambda>p. str_includes (name p) projectName \<or> str_includes projectName (name p)) projects of
             Some p \<Rightarrow> Some p
           | None \<Rightarrow>
               (let customerName = customerNameOf projectName
                in if customerName \<noteq> []
                   then find (\<lambda>p. str_includes (name p) customerName) projects
                   else None)))"

section \<open>Unique name generator\<close>

text \<open>\<^verbatim>\<open>String.prototype.toLowerCase\<close> on the ASCII letters.\<close>

definition toLowerCase_char :: "char \<Rightarrow> char" where
  "toLowerCase_char c =
     (let n = (of_char c :: nat) in if 65 \<le> n \<and> n \<le> 90 then char_of (n + 32) else c)"

definition toLowerCase :: "string \<Rightarrow> string" where
  "toLowerCase s = map toLowerCase_char s"

datatype role = Frontend | Backend

fun role_token :: "role \<Rightarrow> string" where
  "role_token Frontend = ''frontend''"
| "role_token Backend = ''backend''"

text \<open>
  The slug of a customer name: \<^verbatim>\<open>slugify(customerName).toLowerCase()\<close>. The package
  \<^verbatim>\<open>slugify\<close> is imported by services/demoGenerator.ts and is not part of the sources, so
  the string it returned is the argument here. Called as it is, with its default options,
  it leaves letters, digits and dots of the customer name in place.
\<close>

definition slugOf :: "string \<Rightarrow> string" where
  "slugOf slugified = toLowerCase slugified"

text \<open>
  \<^verbatim>\<open>generateDemo\<close> names the two projects \<^verbatim>\<open>segment-demo-${slug}-frontend\<close> and
  \<^verbatim>\<open>segment-demo-${slug}-backend\<close>.
\<close>

definition projectNameFor :: "string \<Rightarrow> role \<Rightarrow> string" where
  "projectNameFor slug r = ''segment-demo-'' @ slug @ ''-'' @ role_token r"

text \<open>
  The generated name: \<^verbatim>\<open>${projectName}-${deploymentId}\<close> in \<^verbatim>\<open>deployToVercel\<close>,
  \<^verbatim>\<open>...-${timestamp}\<close> in \<^verbatim>\<open>generateDemo\<close>. The suffix is
  \<^verbatim>\<open>Math.random().toString(36).substring(7)\<close> or \<^verbatim>\<open>Date.now().toString(36)\<close>: digits
  of base 36, taken here as an argument.
\<close>

definition generatedName :: "string \<Rightarrow> role \<Rightarrow> string \<Rightarrow> string" where
  "generatedName slug r sfx = projectNameFor slug r @ ''-'' @ sfx"

definition is_base36 :: "string \<Rightarrow> bool" where
  "is_base36 s =
     list_all (\<lambda>c. let n = (of_char c :: nat)
                    in (48 \<le> n \<and> n \<le> 57) \<or> (97 \<le> n \<and> n \<le> 122)) s"

text \<open>The deploy-host URL of a project name: \<^verbatim>\<open>https://${name}.vercel.app\<close>.\<close>

definition deployUrl :: "string \<Rightarrow> string" where
  "deployUrl n = ''https://'' @ n @ ''.vercel.app''"

section \<open>The record store and the providers\<close>

text \<open>A row of the \<^verbatim>\<open>demos\<close> table (supabase-schema.sql) without its key and timestamp.\<close>

record demo =
  user_id :: string
  customer_name :: string
  logo_url :: "string option"
  segment_write_key :: string
  segment_profile_token :: string
  segment_unify_space_id :: string
  frontend_url :: "string option"
  backend_url :: "string option"
  github_repo_url :: "string option"

text \<open>Which account a deploy-host request addresses: \<^verbatim>\<open>/v9/teams/${teamId}/projects\<close> or \<^verbatim>\<open>/v9/projects\<close>.\<close>

datatype scope = Team string | Personal

text \<open>
  Everything a request handler does outside the process, in the order it happens. The two
  \<open>Enter\<close> events record that the helper was invoked for a project name or repository URL.
\<close>

datatype call =
    DbSelect string
  | DbInsert demo
  | DbDelete string
  | GenerateDemo
  | EnterDeleteVercelProject string
  | VercelList scope
  | VercelDelete scope string
  | EnterDeleteGitHubRepo string
  | GitHubDelete string string

fun deploy_host_call :: "call \<Rightarrow> bool" where
  "deploy_host_call (EnterDeleteVercelProject n) = True"
| "deploy_host_call (VercelList sc) = True"
| "deploy_host_call (VercelDelete sc x) = True"
| "deploy_host_call c = False"

fun code_host_call :: "call \<Rightarrow> bool" where
  "code_host_call (EnterDeleteGitHubRepo u) = True"
| "code_host_call (GitHubDelete ow rp) = True"
| "code_host_call c = False"

text \<open>
  The reply to a listing request: the \<^verbatim>\<open>fetch\<close> (or reading its body) raised, the status
  was not ok, or it was ok with a body whose \<^verbatim>\<open>projects\<close> field may be missing.
\<close>

datatype list_reply = ListThrew | ListNotOk | ListOk "project list option"

datatype http_reply = ReplyThrew | ReplyNotOk | ReplyOk

record demo_result =
  frontendUrl :: string
  backendUrl :: string
  githubRepoUrl :: string

record generation_request =
  customerName :: "string option"
  logoUrl :: "string option"
  writeKey :: "string option"
  profileToken :: "string option"
  unifySpaceId :: "string option"
  githubToken :: "string option"
  supabaseUserId :: "string option"
  inspirationRepo :: "string option"

text \<open>
  The process environment and the collaborators. Every collaborator answers as a function of
  the calls made so far, so a provider may answer differently each time it is asked.
  \<open>insertDemo\<close> gives the key the store assigns, or nothing when the insert reports an error;
  \<open>generateDemo\<close> gives the result of the generation service, or nothing when it throws.
\<close>

record env =
  VERCEL_TOKEN :: "string option"
  VERCEL_TEAM_ID :: "string option"
  listProjects :: "call list \<Rightarrow> scope \<Rightarrow> list_reply"
  deleteProject :: "call list \<Rightarrow> scope \<Rightarrow> string \<Rightarrow> http_reply"
  reposDelete :: "call list \<Rightarrow> string \<Rightarrow> string \<Rightarrow> bool"
  selectFails :: "call list \<Rightarrow> string \<Rightarrow> bool"
  deleteFails :: "call list \<Rightarrow> string \<Rightarrow> bool"
  insertDemo :: "call list \<Rightarrow> demo \<Rightarrow> string option"
  generateDemo :: "call list \<Rightarrow> generation_request \<Rightarrow> demo_result option"

text \<open>The state a handler changes: the rows of the table by key, and the calls made so far.\<close>

record state =
  rows :: "string \<rightharpoonup> demo"
  calls :: "call list"

datatype outcome = Returned | Thrown

datatype endpoint = TeamEndpoint | PersonalEndpoint

text \<open>The JSON body of a response; the \<^verbatim>\<open>details\<close> text of an error body is left out.\<close>

datatype body =
    Success string
  | SuccessData demo_result
  | Failure string
  | ConnectionTest bool string nat "project list"

datatype response = Response nat body

fun status :: "response \<Rightarrow> nat" where
  "status (Response n b) = n"

section \<open>Record store gateway\<close>

text \<open>
  \<^verbatim>\<open>supabase.from('demos').select('*').eq('id', demoId).single()\<close>: the row, or nothing
  when the store reports an error or holds no row with this key.
\<close>

definition dbSelect :: "env \<Rightarrow> string \<Rightarrow> state \<Rightarrow> demo option \<times> state" where
  "dbSelect e demoId st =
     (if selectFails e (calls st) demoId then None else rows st demoId,
      st\<lparr>calls := calls st @ [DbSelect demoId]\<rparr>)"

text \<open>
  \<^verbatim>\<open>supabase.from('demos').delete().eq('id', demoId)\<close>: the first component tells whether
  the store reported an error; without one the row, if any, is gone.
\<close>

definition dbDelete :: "env \<Rightarrow> string \<Rightarrow> state \<Rightarrow> bool \<times> state" where
  "dbDelete e demoId st =
     (if deleteFails e (calls st) demoId
      then (True, st\<lparr>calls := calls st @ [DbDelete demoId]\<rparr>)
      else (False, st\<lparr>rows := (rows st)(demoId := None), calls := calls st @ [DbDelete demoId]\<rparr>))"

text \<open>\<^verbatim>\<open>supabase.from('demos').insert({...})\<close>: whether the store reported an error.\<close>

definition dbInsert :: "env \<Rightarrow> demo \<Rightarrow> state \<Rightarrow> bool \<times> state" where
  "dbInsert e row st =
     (case insertDemo e (calls st) row of
        None \<Rightarrow> (True, st\<lparr>calls := calls st @ [DbInsert row]\<rparr>)
      | Some k \<Rightarrow> (False, st\<lparr>rows := (rows st)(k \<mapsto> row), calls := calls st @ [DbInsert row]\<rparr>))"

section \<open>Deploy-host and code-host deletion helpers\<close>

text \<open>\<^verbatim>\<open>projectsData.projects || []\<close>.\<close>

definition projects_of :: "project list option \<Rightarrow> project list" where
  "projects_of b = (case b of None \<Rightarrow> [] | Some ps \<Rightarrow> ps)"

text \<open>
  The first block of \<^verbatim>\<open>deleteVercelProject\<close>: with a team identifier configured, the
  team listing is fetched; an ok answer sets the projects and the endpoint type, any
  failure is only logged. The result is \<^verbatim>\<open>projects\<close>, \<^verbatim>\<open>endpointType\<close> and the calls.
\<close>

definition teamListing :: "env \<Rightarrow> call list \<Rightarrow> project list \<times> endpoint \<times> call list" where
  "teamListing e t0 =
     (case VERCEL_TEAM_ID e of
        None \<Rightarrow> ([], PersonalEndpoint, t0)
      | Some teamId \<Rightarrow>
          if teamId = [] then ([], PersonalEndpoint, t0)
          else (case listProjects e t0 (Team teamId) of
                  ListOk b \<Rightarrow> (projects_of b, TeamEndpoint, t0 @ [VercelList (Team teamId)])
                | ListNotOk \<Rightarrow> ([], PersonalEndpoint, t0 @ [VercelList (Team teamId)])
                | ListThrew \<Rightarrow> ([], PersonalEndpoint, t0 @ [VercelList (Team teamId)])))"

text \<open>
  The second block: when no project has been found so far (\<^verbatim>\<open>projects.length === 0\<close>),
  the personal listing is fetched, and a failure there is thrown. The result is the
  listing and the endpoint type that produced it, or nothing when the helper throws.
\<close>

definition fetchProjects :: "env \<Rightarrow> call list \<Rightarrow> (project list \<times> endpoint) option \<times> call list" where
  "fetchProjects e t0 =
     (case teamListing e t0 of
        (projects, endpointType, t1) \<Rightarrow>
          if projects = []
          then (case listProjects e t1 Personal of
                  ListOk b \<Rightarrow> (Some (projects_of b, PersonalEndpoint), t1 @ [VercelList Personal])
                | ListNotOk \<Rightarrow> (None, t1 @ [VercelList Personal])
                | ListThrew \<Rightarrow> (None, t1 @ [VercelList Personal]))
          else (Some (projects, endpointType), t1))"

text \<open>
  \<^verbatim>\<open>endpointType === 'team' && teamId ? .../teams/${teamId}/projects/${x} : .../projects/${x}\<close>.
\<close>

definition deleteScope :: "endpoint \<Rightarrow> string option \<Rightarrow> scope" where
  "deleteScope endpointType teamId =
     (case teamId of
        None \<Rightarrow> Personal
      | Some tid \<Rightarrow> if endpointType = TeamEndpoint \<and> tid \<noteq> [] then Team tid else Personal)"

text \<open>
  \<^verbatim>\<open>deleteVercelProject(projectName, token)\<close>. When no project matches, the name itself
  is deleted directly and whatever that request answers is swallowed. When a project
  matches, it is deleted by its identifier and anything but an ok answer is thrown. The
  token only travels in the request header and is not modelled.
\<close>

definition deleteVercelProject :: "env \<Rightarrow> string \<Rightarrow> call list \<Rightarrow> outcome \<times> call list" where
  "deleteVercelProject e projectName t0 =
     (case fetchProjects e (t0 @ [EnterDeleteVercelProject projectName]) of
        (None, t1) \<Rightarrow> (Thrown, t1)
      | (Some (projects, endpointType), t1) \<Rightarrow>
          (case findProjectFuzzy projectName projects of
             None \<Rightarrow>
               (Returned, t1 @ [VercelDelete (deleteScope endpointType (VERCEL_TEAM_ID e)) projectName])
           | Some p \<Rightarrow>
               (let sc = deleteScope endpointType (VERCEL_TEAM_ID e)
                in (case deleteProject e t1 sc (ident p) of
                      ReplyOk \<Rightarrow> (Returned, t1 @ [VercelDelete sc (ident p)])
                    | ReplyNotOk \<Rightarrow> (Thrown, t1 @ [VercelDelete sc (ident p)])
                    | ReplyThrew \<Rightarrow> (Thrown, t1 @ [VercelDelete sc (ident p)])))))"

text \<open>\<^verbatim>\<open>demo.frontend_url ? extractProjectNameFromUrl(demo.frontend_url) : null\<close>.\<close>

definition projectOfUrl :: "string option \<Rightarrow> string option" where
  "projectOfUrl url =
     (case url of None \<Rightarrow> None | Some u \<Rightarrow> if u = [] then None else extractProjectNameFromUrl u)"

text \<open>\<^verbatim>\<open>if (project) { await deleteVercelProject(project, vercelToken); }\<close>.\<close>

definition deleteIfNamed :: "env \<Rightarrow> string option \<Rightarrow> call list \<Rightarrow> outcome \<times> call list" where
  "deleteIfNamed e project t =
     (if truthy project
      then (case project of None \<Rightarrow> (Returned, t) | Some n \<Rightarrow> deleteVercelProject e n t)
      else (Returned, t))"

text \<open>
  \<^verbatim>\<open>deleteVercelDeployments(demo)\<close>: nothing without the token; otherwise the frontend
  project, then the backend project, inside one \<^verbatim>\<open>try\<close> block whose handler rethrows.
\<close>

definition deleteVercelDeployments :: "env \<Rightarrow> demo \<Rightarrow> call list \<Rightarrow> outcome \<times> call list" where
  "deleteVercelDeployments e d t0 =
     (if \<not> truthy (VERCEL_TOKEN e) then (Returned, t0)
      else (let frontendProject = projectOfUrl (frontend_url d);
                backendProject = projectOfUrl (backend_url d)
            in (case deleteIfNamed e frontendProject t0 of
                  (Thrown, t1) \<Rightarrow> (Thrown, t1)
                | (Returned, t1) \<Rightarrow> deleteIfNamed e backendProject t1)))"

text \<open>
  \<^verbatim>\<open>deleteGitHubRepo(repoUrl, githubToken)\<close>: an URL of another shape is thrown before any
  request; otherwise \<^verbatim>\<open>octokit.repos.delete({owner, repo})\<close>, whose failure is rethrown.
\<close>

definition deleteGitHubRepo :: "env \<Rightarrow> string \<Rightarrow> call list \<Rightarrow> outcome \<times> call list" where
  "deleteGitHubRepo e repoUrl t0 =
     (let t1 = t0 @ [EnterDeleteGitHubRepo repoUrl]
      in (case parseGitHubRepoUrl repoUrl of
            None \<Rightarrow> (Thrown, t1)
          | Some (owner, repo) \<Rightarrow>
              (if reposDelete e t1 owner repo then Returned else Thrown,
               t1 @ [GitHubDelete owner repo])))"

text \<open>
  The repository step shared by \<^verbatim>\<open>/delete-demo-data\<close> and \<^verbatim>\<open>/delete-demo\<close>:
  \<^verbatim>\<open>if (demo.github_repo_url && githubToken) { try { await deleteGitHubRepo(...) } catch { log } }\<close>.
\<close>

definition repoStep :: "env \<Rightarrow> demo \<Rightarrow> string option \<Rightarrow> call list \<Rightarrow> call list" where
  "repoStep e d githubTok t =
     (if truthy (github_repo_url d) \<and> truthy githubTok
      then (case github_repo_url d of None \<Rightarrow> t | Some u \<Rightarrow> snd (deleteGitHubRepo e u t))
      else t)"

text \<open>
  The final step shared by both: the database delete, whose error is thrown to the
  handler's outer \<^verbatim>\<open>catch\<close> and answered with status 500.
\<close>

definition deleteRowStep :: "env \<Rightarrow> string \<Rightarrow> string \<Rightarrow> string \<Rightarrow> state \<Rightarrow> response \<times> state" where
  "deleteRowStep e demoId okMessage errMessage st =
     (case dbDelete e demoId st of
        (True, st') \<Rightarrow> (Response 500 (Failure errMessage), st')
      | (False, st') \<Rightarrow> (Response 200 (Success okMessage), st'))"

section \<open>Deprovisioning orchestrator: the request handlers\<close>

text \<open>\<^verbatim>\<open>app.delete('/delete-vercel-deployments')\<close>.\<close>

definition delete_vercel_deployments :: "env \<Rightarrow> string option \<Rightarrow> state \<Rightarrow> response \<times> state" where
  "delete_vercel_deployments e demoId st =
     (case demoId of
        None \<Rightarrow> (Response 400 (Failure ''Demo ID is required''), st)
      | Some k \<Rightarrow>
          if k = [] then (Response 400 (Failure ''Demo ID is required''), st)
          else (case dbSelect e k st of
                  (None, st1) \<Rightarrow> (Response 404 (Failure ''Demo not found''), st1)
                | (Some d, st1) \<Rightarrow>
                    if truthy (frontend_url d) \<or> truthy (backend_url d)
                    then (case deleteVercelDeployments e d (calls st1) of
                            (Returned, t) \<Rightarrow>
                              (Response 200 (Success ''Vercel deployments deleted successfully''),
                               st1\<lparr>calls := t\<rparr>)
                          | (Thrown, t) \<Rightarrow>
                              (Response 500 (Failure ''Failed to delete Vercel deployments''),
                               st1\<lparr>calls := t\<rparr>))
                    else (Response 200 (Success ''No Vercel deployments found''), st1)))"

text \<open>\<^verbatim>\<open>app.delete('/delete-demo-data')\<close>.\<close>

definition delete_demo_data :: "env \<Rightarrow> string option \<Rightarrow> string option \<Rightarrow> state \<Rightarrow> response \<times> state" where
  "delete_demo_data e demoId githubTok st =
     (case demoId of
        None \<Rightarrow> (Response 400 (Failure ''Demo ID is required''), st)
      | Some k \<Rightarrow>
          if k = [] then (Response 400 (Failure ''Demo ID is required''), st)
          else (case dbSelect e k st of
                  (None, st1) \<Rightarrow> (Response 404 (Failure ''Demo not found''), st1)
                | (Some d, st1) \<Rightarrow>
                    deleteRowStep e k ''Demo data deleted successfully'' ''Failed to delete demo data''
                      (st1\<lparr>calls := repoStep e d githubTok (calls st1)\<rparr>)))"

text \<open>\<^verbatim>\<open>app.delete('/delete-demo')\<close>, the legacy handler that deletes everything.\<close>

definition delete_demo :: "env \<Rightarrow> string option \<Rightarrow> string option \<Rightarrow> state \<Rightarrow> response \<times> state" where
  "delete_demo e demoId githubTok st =
     (if \<not> truthy demoId \<or> \<not> truthy githubTok
      then (Response 400 (Failure ''Demo ID and GitHub token are required''), st)
      else (case demoId of
              None \<Rightarrow> (Response 400 (Failure ''Demo ID and GitHub token are required''), st)
            | Some k \<Rightarrow>
                (case dbSelect e k st of
                   (None, st1) \<Rightarrow> (Response 404 (Failure ''Demo not found''), st1)
                 | (Some d, st1) \<Rightarrow>
                     (let t1 = (if truthy (frontend_url d) \<or> truthy (backend_url d)
                                then snd (deleteVercelDeployments e d (calls st1))
                                else calls st1)
                      in deleteRowStep e k ''Demo deleted successfully'' ''Failed to delete demo''
                           (st1\<lparr>calls := repoStep e d githubTok t1\<rparr>)))))"

text \<open>
  \<^verbatim>\<open>app.get('/test-vercel')\<close>: both listings are tried as in \<^verbatim>\<open>deleteVercelProject\<close>, but
  a failure of either is only logged.
\<close>

definition test_vercel :: "env \<Rightarrow> state \<Rightarrow> response \<times> state" where
  "test_vercel e st =
     (if \<not> truthy (VERCEL_TOKEN e) then (Response 400 (Failure ''VERCEL_TOKEN not set''), st)
      else (let t0 = calls st;
                (projects, endpointUsed, t1) =
                  (case VERCEL_TEAM_ID e of
                     None \<Rightarrow> ([], [], t0)
                   | Some teamId \<Rightarrow>
                       if teamId = [] then ([], [], t0)
                       else (case listProjects e t0 (Team teamId) of
                               ListOk b \<Rightarrow> (projects_of b, ''team'', t0 @ [VercelList (Team teamId)])
                             | ListNotOk \<Rightarrow> ([], [], t0 @ [VercelList (Team teamId)])
                             | ListThrew \<Rightarrow> ([], [], t0 @ [VercelList (Team teamId)])));
                (projects', endpointUsed', t2) =
                  (if projects = []
                   then (case listProjects e t1 Personal of
                           ListOk b \<Rightarrow> (projects_of b, ''personal'', t1 @ [VercelList Personal])
                         | ListNotOk \<Rightarrow> (projects, endpointUsed, t1 @ [VercelList Personal])
                         | ListThrew \<Rightarrow> (projects, endpointUsed, t1 @ [VercelList Personal]))
                   else (projects, endpointUsed, t1))
            in (Response 200 (ConnectionTest (projects' \<noteq> []) endpointUsed' (length projects') projects'),
                st\<lparr>calls := t2\<rparr>)))"

section \<open>Provisioning orchestrator: the request handler\<close>

text \<open>The row \<^verbatim>\<open>/generate-demo\<close> inserts after the generation service has returned.\<close>

definition demoRow :: "generation_request \<Rightarrow> demo_result \<Rightarrow> demo" where
  "demoRow rq r =
     \<lparr>user_id = (case supabaseUserId rq of None \<Rightarrow> [] | Some v \<Rightarrow> v),
      customer_name = (case customerName rq of None \<Rightarrow> [] | Some v \<Rightarrow> v),
      logo_url = logoUrl rq,
      segment_write_key = (case writeKey rq of None \<Rightarrow> [] | Some v \<Rightarrow> v),
      segment_profile_token = (case profileToken rq of None \<Rightarrow> [] | Some v \<Rightarrow> v),
      segment_unify_space_id = (case unifySpaceId rq of None \<Rightarrow> [] | Some v \<Rightarrow> v),
      frontend_url = Some (frontendUrl r),
      backend_url = Some (backendUrl r),
      github_repo_url = Some (githubRepoUrl r)\<rparr>"

text \<open>
  \<^verbatim>\<open>app.post('/generate-demo')\<close>: validation, the generation service (a throw is
  answered with status 500), the insert (an error is only logged), the success response.
\<close>

definition generate_demo :: "env \<Rightarrow> generation_request \<Rightarrow> state \<Rightarrow> response \<times> state" where
  "generate_demo e rq st =
     (if \<not> truthy (customerName rq) \<or> \<not> truthy (writeKey rq) \<or> \<not> truthy (profileToken rq)
         \<or> \<not> truthy (unifySpaceId rq) \<or> \<not> truthy (githubToken rq) \<or> \<not> truthy (supabaseUserId rq)
      then (Response 400 (Failure
              ''Missing required fields: customerName, writeKey, profileToken, unifySpaceId, githubToken, supabaseUserId''),
            st)
      else (case generateDemo e (calls st) rq of
              None \<Rightarrow> (Response 500 (Failure ''Failed to generate demo''),
                        st\<lparr>calls := calls st @ [GenerateDemo]\<rparr>)
            | Some result \<Rightarrow>
                (case dbInsert e (demoRow rq result) (st\<lparr>calls := calls st @ [GenerateDemo]\<rparr>) of
                   (dbError, st') \<Rightarrow> (Response 200 (SuccessData result), st'))))"

section \<open>The client's proxy route\<close>

text \<open>
  The \<^verbatim>\<open>DELETE\<close> route of the Next.js client that forwards to \<^verbatim>\<open>/delete-demo-data\<close>.
  It answers 400 itself when a parameter is missing; otherwise it calls the server and
  passes the answer on, an error answer reduced to its \<^verbatim>\<open>error\<close> text. \<open>reachable\<close> tells
  whether the \<^verbatim>\<open>fetch\<close> to the server returns; when it throws, the route answers 500.
\<close>

definition client_delete_demo_data ::
  "bool \<Rightarrow> env \<Rightarrow> string option \<Rightarrow> string option \<Rightarrow> state \<Rightarrow> response \<times> state" where
  "client_delete_demo_data reachable e demoId githubTok st =
     (if \<not> truthy demoId then (Response 400 (Failure ''Demo ID is required''), st)
      else if \<not> truthy githubTok then (Response 400 (Failure ''GitHub token is required''), st)
      else if \<not> reachable then (Response 500 (Failure ''Internal server error''), st)
      else (case delete_demo_data e demoId githubTok st of
              (Response n b, st') \<Rightarrow>
                if 200 \<le> n \<and> n \<le> 299 then (Response 200 b, st')
                else (Response n (Failure (case b of
                                             Failure err \<Rightarrow>
                                               if err = [] then ''Failed to delete demo data'' else err
                                           | Success m \<Rightarrow> ''Failed to delete demo data''
                                           | SuccessData r \<Rightarrow> ''Failed to delete demo data''
                                           | ConnectionTest ok u c ps \<Rightarrow> ''Failed to delete demo data'')),
                      st')))"

section \<open>Example worlds\<close>

text \<open>A demo whose three result URLs are set, its two projects as the deploy host lists them.\<close>

definition demo1 :: demo where
  "demo1 =
     \<lparr>user_id = ''user-1'', customer_name = ''Acme'', logo_url = None,
      segment_write_key = ''wk'', segment_profile_token = ''pt'', segment_unify_space_id = ''sp'',
      frontend_url = Some ''https://segment-demo-acme-frontend-k3x9.vercel.app'',
      backend_url = Some ''https://segment-demo-acme-backend-q7w2.vercel.app'',
      github_repo_url = Some ''https://github.com/octo/segment-demo-acme''\<rparr>"

definition listing1 :: "project list" where
  "listing1 =
     [\<lparr>name = ''segment-demo-acme-frontend-k3x9'', ident = ''prj_f''\<rparr>,
      \<lparr>name = ''segment-demo-acme-backend-q7w2'', ident = ''prj_b''\<rparr>]"

text \<open>
  A world where every collaborator answers well: the deploy-host credential is configured,
  no team identifier, the listing shows both projects, every deletion is accepted.
\<close>

definition env_ok :: env where
  "env_ok =
     \<lparr>VERCEL_TOKEN = Some ''vercel-token'', VERCEL_TEAM_ID = None,
      listProjects = (\<lambda>t sc. ListOk (Some listing1)),
      deleteProject = (\<lambda>t sc x. ReplyOk),
      reposDelete = (\<lambda>t ow rp. True),
      selectFails = (\<lambda>t k. False),
      deleteFails = (\<lambda>t k. False),
      insertDemo = (\<lambda>t row. Some ''demo-2''),
      generateDemo = (\<lambda>t rq. None)\<rparr>"

text \<open>The same world, except that the deploy host refuses every project deletion.\<close>

definition env_refusing :: env where
  "env_refusing = env_ok\<lparr>deleteProject := (\<lambda>t sc x. ReplyNotOk)\<rparr>"

text \<open>The store holding \<open>demo1\<close> under the key \<open>demo-1\<close>, before any call.\<close>

definition state1 :: state where
  "state1 = \<lparr>rows = [''demo-1'' \<mapsto> demo1], calls = []\<rparr>"

text \<open>The same world without the deploy-host credential.\<close>

definition env_no_token :: env where
  "env_no_token = env_ok\<lparr>VERCEL_TOKEN := None\<rparr>"

text \<open>The same world, except that the code host rejects every repository deletion.\<close>

definition env_repo_fails :: env where
  "env_repo_fails = env_ok\<lparr>reposDelete := (\<lambda>t ow rp. False)\<rparr>"

text \<open>A complete provisioning request, the result of its generation, and a store that rejects the insert.\<close>

definition request1 :: generation_request where
  "request1 =
     \<lparr>customerName = Some ''Acme'', logoUrl = None, writeKey = Some ''wk'',
      profileToken = Some ''pt'', unifySpaceId = Some ''sp'', githubToken = Some ''gh-token'',
      supabaseUserId = Some ''user-1'', inspirationRepo = None\<rparr>"

definition result1 :: demo_result where
  "result1 =
     \<lparr>frontendUrl = ''https://segment-demo-acme-frontend-k3x9.vercel.app'',
      backendUrl = ''https://segment-demo-acme-backend-q7w2.vercel.app'',
      githubRepoUrl = ''https://github.com/octo/segment-demo-acme''\<rparr>"

definition env_insert_fails :: env where
  "env_insert_fails =
     env_ok\<lparr>insertDemo := (\<lambda>t row. None), generateDemo := (\<lambda>t rq. Some result1)\<rparr>"

text \<open>A world whose deploy host lists no project at all and refuses every deletion.\<close>

definition env_cleared :: env where
  "env_cleared =
     env_ok\<lparr>listProjects := (\<lambda>t sc. ListOk (Some [])), deleteProject := (\<lambda>t sc x. ReplyNotOk)\<rparr>"

section \<open>Facts about the string operations\<close>

lemma strip_prefix_append: "strip_prefix p (p @ s) = Some s"
  by (induction p) simp_all

lemma split_nonempty: "split d s \<noteq> []"
  by (induction s) (auto split: list.splits)

lemma split_no_sep: "d \<notin> set w \<Longrightarrow> split d w = [w]"
  by (induction w) (auto split: list.splits)

lemma split_append_sep: "split d (a @ d # b) = split d a @ split d b"
proof (induction a)
  case Nil
  show ?case by simp
next
  case (Cons c a)
  show ?case
  proof (cases "split d a")
    case Nil
    then show ?thesis using split_nonempty [of d a] by simp
  next
    case (Cons w ws)
    with Cons.IH show ?thesis by (auto split: list.splits)
  qed
qed

lemma join_cons: "ws \<noteq> [] \<Longrightarrow> join d (w # ws) = w @ d # join d ws"
  by (cases ws) simp_all

lemma join_split: "join d (split d s) = s"
proof (induction s)
  case Nil
  show ?case by simp
next
  case (Cons c s)
  show ?case
  proof (cases "c = d")
    case True
    then show ?thesis using Cons.IH split_nonempty [of d s] by (simp add: join_cons)
  next
    case False
    obtain w ws where sp: "split d s = w # ws"
      using split_nonempty [of d s] by (cases "split d s") auto
    have "join d ((c # w) # ws) = c # join d (w # ws)"
      by (cases ws) simp_all
    with False sp Cons.IH show ?thesis by simp
  qed
qed

lemma slice_middle: "slice 2 (- 2) (a # b # xs @ [c, e]) = xs"
  by (simp add: slice_def Let_def)

lemma toLowerCase_char_dot: "toLowerCase_char c = CHR ''.'' \<Longrightarrow> c = CHR ''.''"
proof -
  assume a: "toLowerCase_char c = CHR ''.''"
  show ?thesis
  proof (cases "65 \<le> (of_char c :: nat) \<and> (of_char c :: nat) \<le> 90")
    case True
    then have "toLowerCase_char c = char_of ((of_char c :: nat) + 32)"
      by (simp add: toLowerCase_char_def)
    with a have "(of_char (char_of ((of_char c :: nat) + 32)) :: nat) = of_char CHR ''.''" by simp
    with True show ?thesis by (simp add: of_char_of)
  next
    case False
    with a show ?thesis by (simp add: toLowerCase_char_def Let_def)
  qed
qed

lemma toLowerCase_no_dot: "CHR ''.'' \<notin> set s \<Longrightarrow> CHR ''.'' \<notin> set (toLowerCase s)"
proof
  assume n: "CHR ''.'' \<notin> set s" and i: "CHR ''.'' \<in> set (toLowerCase s)"
  from i obtain c where "c \<in> set s" "toLowerCase_char c = CHR ''.''"
    by (auto simp: toLowerCase_def)
  with n show False using toLowerCase_char_dot by blast
qed

lemma slugOf_no_dot: "CHR ''.'' \<notin> set slugified \<Longrightarrow> CHR ''.'' \<notin> set (slugOf slugified)"
  unfolding slugOf_def by (rule toLowerCase_no_dot)

lemma role_token_no_dot: "CHR ''.'' \<notin> set (role_token r)"
  by (cases r) simp_all

lemma role_token_no_hyphen: "CHR ''-'' \<notin> set (role_token r)"
  by (cases r) simp_all

lemma base36_no_dot: "is_base36 s \<Longrightarrow> CHR ''.'' \<notin> set s"
  by (induction s) (auto simp: is_base36_def Let_def)

lemma base36_no_hyphen: "is_base36 s \<Longrightarrow> CHR ''-'' \<notin> set s"
  by (induction s) (auto simp: is_base36_def Let_def)

lemma generatedName_no_dot:
  "CHR ''.'' \<notin> set slug \<Longrightarrow> is_base36 sfx \<Longrightarrow> CHR ''.'' \<notin> set (generatedName slug r sfx)"
  using role_token_no_dot [of r] base36_no_dot [of sfx]
  by (simp add: generatedName_def projectNameFor_def)

lemma generatedName_nonempty: "generatedName slug r sfx \<noteq> []"
  by (simp add: generatedName_def projectNameFor_def)

lemma extract_deployUrl:
  assumes "n \<noteq> []" and "CHR ''.'' \<notin> set n"
  shows "extractProjectNameFromUrl (deployUrl n) = Some n"
proof -
  have tw: "takeWhile (\<lambda>c. c \<noteq> CHR ''.'') (n @ ''.vercel.app'') = n"
    using assms(2) by (induction n) auto
  have dw: "dropWhile (\<lambda>c. c \<noteq> CHR ''.'') (n @ ''.vercel.app'') = ''.vercel.app''"
    using assms(2) by (induction n) auto
  have sp: "strip_prefix ''https://'' (''https://'' @ n @ ''.vercel.app'') = Some (n @ ''.vercel.app'')"
    by (rule strip_prefix_append)
  have "vercel_match_here (deployUrl n) = Some n"
    unfolding vercel_match_here_def deployUrl_def sp using assms(1) tw dw by (simp add: Let_def)
  then show ?thesis
    by (simp add: extractProjectNameFromUrl_def deployUrl_def)
qed

lemma split_generatedName:
  assumes "CHR ''-'' \<notin> set sfx"
  shows "split CHR ''-'' (generatedName slug r sfx) =
         ''segment'' # ''demo'' # split CHR ''-'' slug @ [role_token r, sfx]"
proof -
  have "generatedName slug r sfx =
        ''segment'' @ CHR ''-'' # (''demo'' @ CHR ''-'' # (slug @ CHR ''-'' # (role_token r @ CHR ''-'' # sfx)))"
    by (simp add: generatedName_def projectNameFor_def)
  then show ?thesis
    using assms role_token_no_hyphen [of r]
    by (simp only: split_append_sep) (simp add: split_no_sep)
qed

lemma customerNameOf_generatedName:
  "CHR ''-'' \<notin> set sfx \<Longrightarrow> customerNameOf (generatedName slug r sfx) = slug"
  by (simp add: customerNameOf_def split_generatedName slice_middle join_split)


lemma find_exact_name:
  "\<exists>p\<in>set ps. name p = t \<Longrightarrow> \<exists>p. find (\<lambda>q. name q = t) ps = Some p \<and> name p = t"
  by (induction ps) auto

lemma find_satisfies: "\<exists>p\<in>set ps. P p \<Longrightarrow> \<exists>p. find P ps = Some p \<and> P p"
  by (induction ps) auto

lemma find_none: "\<not> (\<exists>p\<in>set ps. P p) \<Longrightarrow> find P ps = None"
  by (induction ps) auto

section \<open>Claims about the resource name resolver\<close>

text \<open>
  C6. The lookup of a project in the listing applies its passes in strict order and the
  first hit wins: an entry whose name equals the target is returned whenever one exists
  (the first such entry), whatever looser matches the listing holds; without one, the
  first entry that contains the target or is contained in it; without one, the first entry
  that contains the customer name cut out of the target, when that is not empty. For a
  generated name \<open>segment-demo-{slug}-{role}-{suffix}\<close> the customer name cut out is exactly
  the slug: the role token and the uniqueness suffix are stripped.
\<close>

theorem findProjectFuzzy_pass_order:
  "((\<exists>p\<in>set ps. name p = t) \<longrightarrow>
      (\<exists>p. findProjectFuzzy t ps = Some p \<and> name p = t \<and> find (\<lambda>q. name q = t) ps = Some p))
   \<and> (\<not> (\<exists>p\<in>set ps. name p = t) \<longrightarrow>
        (\<exists>p\<in>set ps. str_includes (name p) t \<or> str_includes t (name p)) \<longrightarrow>
        (\<exists>p. findProjectFuzzy t ps = Some p
             \<and> (str_includes (name p) t \<or> str_includes t (name p))
             \<and> find (\<lambda>q. str_includes (name q) t \<or> str_includes t (name q)) ps = Some p))
   \<and> (\<not> (\<exists>p\<in>set ps. name p = t) \<longrightarrow>
        \<not> (\<exists>p\<in>set ps. str_includes (name p) t \<or> str_includes t (name p)) \<longrightarrow>
        findProjectFuzzy t ps =
          (if customerNameOf t = [] then None
           else find (\<lambda>q. str_includes (name q) (customerNameOf t)) ps))
   \<and> (CHR ''-'' \<notin> set sfx \<longrightarrow> customerNameOf (generatedName slug r sfx) = slug)"
proof (intro conjI impI)
  assume "\<exists>p\<in>set ps. name p = t"
  then obtain p where "find (\<lambda>q. name q = t) ps = Some p" "name p = t"
    using find_exact_name by blast
  then show "\<exists>p. findProjectFuzzy t ps = Some p \<and> name p = t \<and> find (\<lambda>q. name q = t) ps = Some p"
    by (simp add: findProjectFuzzy_def)
next
  assume ne: "\<not> (\<exists>p\<in>set ps. name p = t)"
    and pa: "\<exists>p\<in>set ps. str_includes (name p) t \<or> str_includes t (name p)"
  from ne have n1: "find (\<lambda>q. name q = t) ps = None" by (rule find_none)
  from pa obtain p where
    "find (\<lambda>q. str_includes (name q) t \<or> str_includes t (name q)) ps = Some p"
    "str_includes (name p) t \<or> str_includes t (name p)"
    using find_satisfies [of ps "\<lambda>q. str_includes (name q) t \<or> str_includes t (name q)"] by blast
  with n1 show "\<exists>p. findProjectFuzzy t ps = Some p
             \<and> (str_includes (name p) t \<or> str_includes t (name p))
             \<and> find (\<lambda>q. str_includes (name q) t \<or> str_includes t (name q)) ps = Some p"
    by (simp add: findProjectFuzzy_def)
next
  assume ne: "\<not> (\<exists>p\<in>set ps. name p = t)"
    and np: "\<not> (\<exists>p\<in>set ps. str_includes (name p) t \<or> str_includes t (name p))"
  from ne have n1: "find (\<lambda>q. name q = t) ps = None" by (rule find_none)
  from np have n2: "find (\<lambda>q. str_includes (name q) t \<or> str_includes t (name q)) ps = None"
    by (rule find_none)
  show "findProjectFuzzy t ps =
          (if customerNameOf t = [] then None
           else find (\<lambda>q. str_includes (name q) (customerNameOf t)) ps)"
    by (simp add: findProjectFuzzy_def n1 n2 Let_def)
next
  assume "CHR ''-'' \<notin> set sfx"
  then show "customerNameOf (generatedName slug r sfx) = slug"
    by (rule customerNameOf_generatedName)
qed

theorem findProjectFuzzy_pass_order_witness:
  "(\<exists>p\<in>set [\<lparr>name = ''segment-demo-acme-frontend-k3x9-old'', ident = ''prj_1''\<rparr>,
               \<lparr>name = ''segment-demo-acme-frontend-k3x9'', ident = ''prj_2''\<rparr>].
       name p = ''segment-demo-acme-frontend-k3x9'')
   \<and> findProjectFuzzy ''segment-demo-acme-frontend-k3x9''
        [\<lparr>name = ''segment-demo-acme-frontend-k3x9-old'', ident = ''prj_1''\<rparr>,
         \<lparr>name = ''segment-demo-acme-frontend-k3x9'', ident = ''prj_2''\<rparr>]
       = Some \<lparr>name = ''segment-demo-acme-frontend-k3x9'', ident = ''prj_2''\<rparr>
   \<and> findProjectFuzzy ''segment-demo-acme-frontend-k3x9''
        [\<lparr>name = ''blog'', ident = ''prj_3''\<rparr>,
         \<lparr>name = ''segment-demo-acme-frontend'', ident = ''prj_4''\<rparr>]
       = Some \<lparr>name = ''segment-demo-acme-frontend'', ident = ''prj_4''\<rparr>
   \<and> findProjectFuzzy ''segment-demo-acme-frontend-k3x9''
        [\<lparr>name = ''blog'', ident = ''prj_3''\<rparr>, \<lparr>name = ''acme-site'', ident = ''prj_5''\<rparr>]
       = Some \<lparr>name = ''acme-site'', ident = ''prj_5''\<rparr>
   \<and> CHR ''-'' \<notin> set ''k3x9''
   \<and> customerNameOf (generatedName ''acme'' Frontend ''k3x9'') = ''acme''"
proof -
  let ?t = "''segment-demo-acme-frontend-k3x9''"
  let ?ps1 = "[\<lparr>name = ''segment-demo-acme-frontend-k3x9-old'', ident = ''prj_1''\<rparr>,
               \<lparr>name = ?t, ident = ''prj_2''\<rparr>]"
  let ?ps2 = "[\<lparr>name = ''blog'', ident = ''prj_3''\<rparr>,
               \<lparr>name = ''segment-demo-acme-frontend'', ident = ''prj_4''\<rparr>]"
  let ?ps3 = "[\<lparr>name = ''blog'', ident = ''prj_3''\<rparr>, \<lparr>name = ''acme-site'', ident = ''prj_5''\<rparr>]"
  have e1: "\<exists>p\<in>set ?ps1. name p = ?t" by simp
  have e2: "\<not> (\<exists>p\<in>set ?ps2. name p = ?t)" by simp
  have p2: "\<exists>p\<in>set ?ps2. str_includes (name p) ?t \<or> str_includes ?t (name p)"
    by code_simp
  have e3: "\<not> (\<exists>p\<in>set ?ps3. name p = ?t)" by simp
  have p3: "\<not> (\<exists>p\<in>set ?ps3. str_includes (name p) ?t \<or> str_includes ?t (name p))"
    by code_simp
  have h: "CHR ''-'' \<notin> set ''k3x9''" by simp
  have c: "customerNameOf ?t = ''acme''" by code_simp
  have f1: "find (\<lambda>q. name q = ?t) ?ps1 = Some \<lparr>name = ?t, ident = ''prj_2''\<rparr>" by simp
  have f2: "find (\<lambda>q. str_includes (name q) ?t \<or> str_includes ?t (name q)) ?ps2
            = Some \<lparr>name = ''segment-demo-acme-frontend'', ident = ''prj_4''\<rparr>"
    by code_simp
  have f3: "find (\<lambda>q. str_includes (name q) ''acme'') ?ps3 = Some \<lparr>name = ''acme-site'', ident = ''prj_5''\<rparr>"
    by code_simp
  have r1: "findProjectFuzzy ?t ?ps1 = Some \<lparr>name = ?t, ident = ''prj_2''\<rparr>"
    using findProjectFuzzy_pass_order [of ?ps1 ?t sfx slug r] e1 f1 by auto
  have r2: "findProjectFuzzy ?t ?ps2 = Some \<lparr>name = ''segment-demo-acme-frontend'', ident = ''prj_4''\<rparr>"
    using findProjectFuzzy_pass_order [of ?ps2 ?t sfx slug r] e2 p2 f2 by auto
  have r3: "findProjectFuzzy ?t ?ps3 = Some \<lparr>name = ''acme-site'', ident = ''prj_5''\<rparr>"
    using findProjectFuzzy_pass_order [of ?ps3 ?t sfx slug r] e3 p3 f3 c by auto
  have r4: "customerNameOf (generatedName ''acme'' Frontend ''k3x9'') = ''acme''"
    using findProjectFuzzy_pass_order [of ps t "''k3x9''" "''acme''" Frontend] h by blast
  show ?thesis using e1 r1 r2 r3 h r4 by blast
qed

text \<open>
  C7 (as amended). Resolving the deploy-host URL of a generated name gives the name back
  when the slug has no dot: for every string returned by \<open>slugify\<close> that contains no dot,
  every role and every base-36 suffix, the URL \<open>https://{n}.vercel.app\<close> of the generated
  name \<open>n\<close> resolves to exactly \<open>n\<close>.
\<close>

theorem resolve_roundtrip_without_dot:
  "CHR ''.'' \<notin> set slugified \<Longrightarrow> is_base36 sfx \<Longrightarrow>
   extractProjectNameFromUrl (deployUrl (generatedName (slugOf slugified) r sfx))
     = Some (generatedName (slugOf slugified) r sfx)"
  by (rule extract_deployUrl) (simp_all add: generatedName_nonempty generatedName_no_dot slugOf_no_dot)

theorem resolve_roundtrip_without_dot_witness:
  "CHR ''.'' \<notin> set ''Acme-Corp''
   \<and> is_base36 ''k3x9''
   \<and> generatedName (slugOf ''Acme-Corp'') Frontend ''k3x9'' = ''segment-demo-acme-corp-frontend-k3x9''
   \<and> extractProjectNameFromUrl (deployUrl (generatedName (slugOf ''Acme-Corp'') Frontend ''k3x9''))
       = Some ''segment-demo-acme-corp-frontend-k3x9''"
proof -
  have d: "CHR ''.'' \<notin> set ''Acme-Corp''" by simp
  have b: "is_base36 ''k3x9''"
    by (simp add: is_base36_def)
  have g: "generatedName (slugOf ''Acme-Corp'') Frontend ''k3x9'' = ''segment-demo-acme-corp-frontend-k3x9''"
    by code_simp
  show ?thesis
    using d b g resolve_roundtrip_without_dot [OF d b, of Frontend] by simp
qed

text \<open>
  The claim as stated fails: for the customer name \<open>Acme.Corp\<close> the package returns the
  name unchanged, the slug is \<open>acme.corp\<close>, and the URL of the generated name
  \<open>segment-demo-acme.corp-frontend-k3x9\<close> resolves to nothing.
\<close>

theorem dotted_slug_does_not_resolve_counterexample:
  "is_base36 ''k3x9''
   \<and> generatedName (slugOf ''Acme.Corp'') Frontend ''k3x9'' = ''segment-demo-acme.corp-frontend-k3x9''
   \<and> deployUrl (generatedName (slugOf ''Acme.Corp'') Frontend ''k3x9'')
       = ''https://segment-demo-acme.corp-frontend-k3x9.vercel.app''
   \<and> extractProjectNameFromUrl (deployUrl (generatedName (slugOf ''Acme.Corp'') Frontend ''k3x9''))
       = None"
  by code_simp

section \<open>Facts about the deletion helpers\<close>

lemma teamListing_trace:
  "\<exists>tv. snd (snd (teamListing e t)) = t @ tv \<and> list_all deploy_host_call tv"
  by (auto simp: teamListing_def split: option.splits list_reply.splits)

lemma teamListing_projects:
  "teamListing e t = (ps, ep, t1) \<Longrightarrow>
   ps = [] \<or> (\<exists>teamId b. listProjects e t (Team teamId) = ListOk b \<and> ps = projects_of b)"
  by (auto simp: teamListing_def split: option.splits list_reply.splits if_splits)

lemma fetchProjects_trace:
  "\<exists>tv. snd (fetchProjects e t) = t @ tv \<and> list_all deploy_host_call tv"
proof -
  obtain ps ep t1 where tl: "teamListing e t = (ps, ep, t1)" by (cases "teamListing e t")
  obtain tv where "t1 = t @ tv" "list_all deploy_host_call tv"
    using teamListing_trace [of e t] tl by auto
  then show ?thesis
    by (auto simp: fetchProjects_def tl split: list_reply.splits)
qed

lemma fetchProjects_reachable:
  assumes "\<forall>t. \<exists>b. listProjects e t Personal = ListOk b"
  shows "\<exists>ps ep t1 t' sc b. fetchProjects e t = (Some (ps, ep), t1)
           \<and> listProjects e t' sc = ListOk b \<and> ps = projects_of b"
proof -
  obtain ps0 ep0 t0 where tl: "teamListing e t = (ps0, ep0, t0)" by (cases "teamListing e t")
  show ?thesis
  proof (cases "ps0 = []")
    case True
    obtain b where b: "listProjects e t0 Personal = ListOk b" using assms by blast
    have "fetchProjects e t = (Some (projects_of b, PersonalEndpoint), t0 @ [VercelList Personal])"
      by (simp add: fetchProjects_def tl True b)
    with b show ?thesis by blast
  next
    case False
    then obtain teamId b where b: "listProjects e t (Team teamId) = ListOk b" "ps0 = projects_of b"
      using teamListing_projects [OF tl] by blast
    have "fetchProjects e t = (Some (ps0, ep0), t0)"
      by (simp add: fetchProjects_def tl False)
    with b show ?thesis by blast
  qed
qed

lemma deleteVercelProject_trace:
  "\<exists>tv. snd (deleteVercelProject e n t) = t @ EnterDeleteVercelProject n # tv
        \<and> list_all deploy_host_call tv"
proof -
  obtain tv where tv: "snd (fetchProjects e (t @ [EnterDeleteVercelProject n]))
      = (t @ [EnterDeleteVercelProject n]) @ tv" "list_all deploy_host_call tv"
    using fetchProjects_trace by blast
  obtain r t1 where f: "fetchProjects e (t @ [EnterDeleteVercelProject n]) = (r, t1)"
    by (cases "fetchProjects e (t @ [EnterDeleteVercelProject n])")
  with tv have t1: "t1 = t @ EnterDeleteVercelProject n # tv" by simp
  show ?thesis
    using tv(2) t1
    by (auto simp: deleteVercelProject_def f Let_def
        split: option.splits prod.splits http_reply.splits)
qed

lemma deleteIfNamed_trace:
  "\<exists>tv. snd (deleteIfNamed e pn t) = t @ tv \<and> list_all deploy_host_call tv"
proof (cases "truthy pn")
  case False
  then show ?thesis by (simp add: deleteIfNamed_def)
next
  case True
  then obtain n where "pn = Some n" by (cases pn) (simp_all add: truthy_def)
  with True show ?thesis
    using deleteVercelProject_trace [of e n t] by (auto simp: deleteIfNamed_def)
qed

lemma deleteVercelDeployments_trace:
  "\<exists>tv. snd (deleteVercelDeployments e d t) = t @ tv \<and> list_all deploy_host_call tv"
proof (cases "truthy (VERCEL_TOKEN e)")
  case False
  then show ?thesis by (simp add: deleteVercelDeployments_def)
next
  case True
  obtain o1 t1 where f: "deleteIfNamed e (projectOfUrl (frontend_url d)) t = (o1, t1)"
    by (cases "deleteIfNamed e (projectOfUrl (frontend_url d)) t")
  obtain tv1 where tv1: "t1 = t @ tv1" "list_all deploy_host_call tv1"
    using deleteIfNamed_trace [of e "projectOfUrl (frontend_url d)" t] f by auto
  show ?thesis
  proof (cases o1)
    case Thrown
    with True f tv1 show ?thesis by (simp add: deleteVercelDeployments_def Let_def)
  next
    case Returned
    obtain tv2 where "snd (deleteIfNamed e (projectOfUrl (backend_url d)) t1) = t1 @ tv2"
      "list_all deploy_host_call tv2"
      using deleteIfNamed_trace by blast
    with True f tv1 Returned show ?thesis
      by (simp add: deleteVercelDeployments_def Let_def)
  qed
qed

lemma deleteGitHubRepo_trace:
  "\<exists>tg. snd (deleteGitHubRepo e u t) = t @ EnterDeleteGitHubRepo u # tg
        \<and> list_all code_host_call tg"
  by (auto simp: deleteGitHubRepo_def Let_def split: option.splits)

lemma repoStep_trace:
  "\<exists>tg. repoStep e d tok t = t @ tg \<and> list_all code_host_call tg"
proof (cases "truthy (github_repo_url d) \<and> truthy tok")
  case False
  then show ?thesis by (auto simp: repoStep_def)
next
  case True
  then obtain u where u: "github_repo_url d = Some u"
    by (cases "github_repo_url d") (simp_all add: truthy_def)
  obtain tg where "snd (deleteGitHubRepo e u t) = t @ EnterDeleteGitHubRepo u # tg"
    "list_all code_host_call tg"
    using deleteGitHubRepo_trace by blast
  with True u show ?thesis by (simp add: repoStep_def)
qed

lemma dbSelect_found:
  "\<not> selectFails e (calls st) k \<Longrightarrow> rows st k = Some d \<Longrightarrow>
   dbSelect e k st = (Some d, st\<lparr>calls := calls st @ [DbSelect k]\<rparr>)"
  by (simp add: dbSelect_def)

lemma vercel_match_here_nonempty: "vercel_match_here s = Some g \<Longrightarrow> g \<noteq> []"
  by (auto simp: vercel_match_here_def Let_def split: option.splits if_splits)

lemma regex_search_vercel_nonempty: "regex_search vercel_match_here u = Some g \<Longrightarrow> g \<noteq> []"
proof (induction u)
  case Nil
  then show ?case using vercel_match_here_nonempty by simp
next
  case (Cons c u)
  then show ?case
    using vercel_match_here_nonempty by (auto split: option.splits)
qed

lemma projectOfUrl_nonempty: "projectOfUrl url = Some n \<Longrightarrow> n \<noteq> []"
  using regex_search_vercel_nonempty
  by (auto simp: projectOfUrl_def extractProjectNameFromUrl_def split: option.splits if_splits)

lemma deleteIfNamed_Some: "projectOfUrl url = Some n \<Longrightarrow>
   deleteIfNamed e (projectOfUrl url) t = deleteVercelProject e n t"
  using projectOfUrl_nonempty [of url n] by (simp add: deleteIfNamed_def truthy_def)

lemma deleteVercelProject_thrown_iff:
  "(fst (deleteVercelProject e n t) = Thrown) =
     (case fetchProjects e (t @ [EnterDeleteVercelProject n]) of
        (None, t1) \<Rightarrow> True
      | (Some (ps, ep), t1) \<Rightarrow>
          (case findProjectFuzzy n ps of
             None \<Rightarrow> False
           | Some p \<Rightarrow> deleteProject e t1 (deleteScope ep (VERCEL_TEAM_ID e)) (ident p) \<noteq> ReplyOk))"
  by (auto simp: deleteVercelProject_def Let_def split: option.splits prod.splits http_reply.splits)

section \<open>Claims about the orchestrators\<close>

text \<open>
  C10. When the deploy-host credential \<open>VERCEL_TOKEN\<close> is not configured (absent or empty),
  then for every stored demo with a frontend or a backend URL set, delete-deployments
  answers 200 with the message \<open>Vercel deployments deleted successfully\<close>; the only call it
  makes is the record lookup, so no deploy-host request is sent and nothing is deleted.
\<close>

theorem missing_deploy_credential_reports_success:
  assumes "\<not> truthy (VERCEL_TOKEN e)"
    and "k \<noteq> []"
    and "\<not> selectFails e (calls st) k"
    and "rows st k = Some d"
    and "truthy (frontend_url d) \<or> truthy (backend_url d)"
  shows "delete_vercel_deployments e (Some k) st =
           (Response 200 (Success ''Vercel deployments deleted successfully''),
            st\<lparr>calls := calls st @ [DbSelect k]\<rparr>)"
  using assms
  by (simp add: delete_vercel_deployments_def dbSelect_found deleteVercelDeployments_def)

theorem missing_deploy_credential_reports_success_witness:
  "\<not> truthy (VERCEL_TOKEN env_no_token)
   \<and> ''demo-1'' \<noteq> []
   \<and> \<not> selectFails env_no_token (calls state1) ''demo-1''
   \<and> rows state1 ''demo-1'' = Some demo1
   \<and> truthy (frontend_url demo1)
   \<and> delete_vercel_deployments env_no_token (Some ''demo-1'') state1 =
        (Response 200 (Success ''Vercel deployments deleted successfully''),
         state1\<lparr>calls := calls state1 @ [DbSelect ''demo-1'']\<rparr>)"
proof -
  have h1: "\<not> truthy (VERCEL_TOKEN env_no_token)"
    by (simp add: env_no_token_def env_ok_def truthy_def)
  have h2: "''demo-1'' \<noteq> []" by simp
  have h3: "\<not> selectFails env_no_token (calls state1) ''demo-1''"
    by (simp add: env_no_token_def env_ok_def)
  have h4: "rows state1 ''demo-1'' = Some demo1"
    by (simp add: state1_def)
  have h5: "truthy (frontend_url demo1)"
    by (simp add: demo1_def truthy_def)
  then have h5': "truthy (frontend_url demo1) \<or> truthy (backend_url demo1)" ..
  show ?thesis
    using h1 h2 h3 h4 h5 missing_deploy_credential_reports_success [OF h1 h2 h3 h4 h5']
    by simp
qed

text \<open>
  C9. When the generation service has returned its result, the provisioning request is
  answered 200 with that result (the three URLs) whatever the insert of the demo record
  does; when the insert fails, nothing is stored and the failure does not reach the caller.
\<close>

theorem insert_failure_not_surfaced:
  assumes "truthy (customerName rq)" and "truthy (writeKey rq)" and "truthy (profileToken rq)"
    and "truthy (unifySpaceId rq)" and "truthy (githubToken rq)" and "truthy (supabaseUserId rq)"
    and "generateDemo e (calls st) rq = Some result"
  shows "fst (generate_demo e rq st) = Response 200 (SuccessData result)
         \<and> (insertDemo e (calls st @ [GenerateDemo]) (demoRow rq result) = None \<longrightarrow>
              snd (generate_demo e rq st) =
                st\<lparr>calls := calls st @ [GenerateDemo, DbInsert (demoRow rq result)]\<rparr>)"
  using assms
  by (auto simp: generate_demo_def dbInsert_def split: option.splits prod.splits)

theorem insert_failure_not_surfaced_witness:
  "truthy (customerName request1) \<and> truthy (writeKey request1) \<and> truthy (profileToken request1)
   \<and> truthy (unifySpaceId request1) \<and> truthy (githubToken request1)
   \<and> truthy (supabaseUserId request1)
   \<and> generateDemo env_insert_fails (calls state1) request1 = Some result1
   \<and> insertDemo env_insert_fails (calls state1 @ [GenerateDemo]) (demoRow request1 result1) = None
   \<and> fst (generate_demo env_insert_fails request1 state1) = Response 200 (SuccessData result1)
   \<and> snd (generate_demo env_insert_fails request1 state1) =
        state1\<lparr>calls := calls state1 @ [GenerateDemo, DbInsert (demoRow request1 result1)]\<rparr>"
proof -
  have h1: "truthy (customerName request1)" and h2: "truthy (writeKey request1)"
    and h3: "truthy (profileToken request1)" and h4: "truthy (unifySpaceId request1)"
    and h5: "truthy (githubToken request1)" and h6: "truthy (supabaseUserId request1)"
    by (simp_all add: request1_def truthy_def)
  have h7: "generateDemo env_insert_fails (calls state1) request1 = Some result1"
    by (simp add: env_insert_fails_def env_ok_def)
  have h8: "insertDemo env_insert_fails (calls state1 @ [GenerateDemo]) (demoRow request1 result1) = None"
    by (simp add: env_insert_fails_def env_ok_def)
  show ?thesis
    using h1 h2 h3 h4 h5 h6 h7 h8 insert_failure_not_surfaced [OF h1 h2 h3 h4 h5 h6 h7]
    by simp
qed

lemma deleteRowStep_eq:
  "deleteRowStep e k okm errm st =
     (if deleteFails e (calls st) k
      then (Response 500 (Failure errm), st\<lparr>calls := calls st @ [DbDelete k]\<rparr>)
      else (Response 200 (Success okm),
            st\<lparr>rows := (rows st)(k := None), calls := calls st @ [DbDelete k]\<rparr>))"
  by (simp add: deleteRowStep_def dbDelete_def)

lemma delete_demo_data_found:
  assumes "k \<noteq> []" and "\<not> selectFails e (calls st) k" and "rows st k = Some d"
  shows "delete_demo_data e (Some k) tok st =
           deleteRowStep e k ''Demo data deleted successfully'' ''Failed to delete demo data''
             (st\<lparr>calls := repoStep e d tok (calls st @ [DbSelect k])\<rparr>)"
  using assms by (simp add: delete_demo_data_def dbSelect_found)

text \<open>
  C4. For every demo whose lookup succeeds, delete-data makes its calls in this order: the
  lookup, the code-host calls of the repository step (not empty when a repository URL is
  set and a credential was supplied), and last the database delete, which is attempted
  whatever the repository step did. The response is a failure (500) exactly when the
  database delete fails, and then the row stays; otherwise it is a success and the row is
  gone.
\<close>

theorem delete_data_database_delete_last:
  assumes "k \<noteq> []" and "\<not> selectFails e (calls st) k" and "rows st k = Some d"
  shows "\<exists>tg. list_all code_host_call tg
           \<and> calls (snd (delete_demo_data e (Some k) tok st))
               = calls st @ [DbSelect k] @ tg @ [DbDelete k]
           \<and> (truthy (github_repo_url d) \<and> truthy tok \<longrightarrow> tg \<noteq> [])
           \<and> fst (delete_demo_data e (Some k) tok st)
               = (if deleteFails e (calls st @ [DbSelect k] @ tg) k
                  then Response 500 (Failure ''Failed to delete demo data'')
                  else Response 200 (Success ''Demo data deleted successfully''))
           \<and> rows (snd (delete_demo_data e (Some k) tok st))
               = (if deleteFails e (calls st @ [DbSelect k] @ tg) k
                  then rows st else (rows st)(k := None))"
proof -
  obtain tg where tg: "repoStep e d tok (calls st @ [DbSelect k]) = (calls st @ [DbSelect k]) @ tg"
    "list_all code_host_call tg"
    using repoStep_trace by blast
  have ne: "truthy (github_repo_url d) \<and> truthy tok \<longrightarrow> tg \<noteq> []"
  proof
    assume a: "truthy (github_repo_url d) \<and> truthy tok"
    then obtain u where u: "github_repo_url d = Some u"
      by (cases "github_repo_url d") (simp_all add: truthy_def)
    obtain tg' where "snd (deleteGitHubRepo e u (calls st @ [DbSelect k]))
        = (calls st @ [DbSelect k]) @ EnterDeleteGitHubRepo u # tg'"
      using deleteGitHubRepo_trace by blast
    with a u tg(1) show "tg \<noteq> []" by (auto simp: repoStep_def)
  qed
  show ?thesis
    using tg ne
    by (intro exI [of _ tg]) (simp add: delete_demo_data_found [OF assms] deleteRowStep_eq)
qed

theorem delete_data_database_delete_last_witness:
  "''demo-1'' \<noteq> []
   \<and> \<not> selectFails env_repo_fails (calls state1) ''demo-1''
   \<and> rows state1 ''demo-1'' = Some demo1
   \<and> calls (snd (delete_demo_data env_repo_fails (Some ''demo-1'') (Some ''gh-token'') state1))
       = [DbSelect ''demo-1'',
          EnterDeleteGitHubRepo ''https://github.com/octo/segment-demo-acme'',
          GitHubDelete ''octo'' ''segment-demo-acme'',
          DbDelete ''demo-1'']
   \<and> fst (delete_demo_data env_repo_fails (Some ''demo-1'') (Some ''gh-token'') state1)
       = Response 200 (Success ''Demo data deleted successfully'')
   \<and> rows (snd (delete_demo_data env_repo_fails (Some ''demo-1'') (Some ''gh-token'') state1)) ''demo-1''
       = None"
proof -
  let ?R = "delete_demo_data env_repo_fails (Some ''demo-1'') (Some ''gh-token'') state1"
  have h1: "''demo-1'' \<noteq> []" by simp
  have h2: "\<not> selectFails env_repo_fails (calls state1) ''demo-1''"
    by (simp add: env_repo_fails_def env_ok_def)
  have h3: "rows state1 ''demo-1'' = Some demo1"
    by (simp add: state1_def)
  have nf: "\<And>t. \<not> deleteFails env_repo_fails t ''demo-1''"
    by (simp add: env_repo_fails_def env_ok_def)
  have tr: "repoStep env_repo_fails demo1 (Some ''gh-token'') (calls state1 @ [DbSelect ''demo-1''])
      = [DbSelect ''demo-1'',
         EnterDeleteGitHubRepo ''https://github.com/octo/segment-demo-acme'',
         GitHubDelete ''octo'' ''segment-demo-acme'']"
    by code_simp
  obtain tg where tg:
    "calls (snd ?R) = calls state1 @ [DbSelect ''demo-1''] @ tg @ [DbDelete ''demo-1'']"
    "fst ?R = (if deleteFails env_repo_fails (calls state1 @ [DbSelect ''demo-1''] @ tg) ''demo-1''
               then Response 500 (Failure ''Failed to delete demo data'')
               else Response 200 (Success ''Demo data deleted successfully''))"
    "rows (snd ?R) = (if deleteFails env_repo_fails (calls state1 @ [DbSelect ''demo-1''] @ tg) ''demo-1''
               then rows state1 else (rows state1)(''demo-1'' := None))"
    using delete_data_database_delete_last [OF h1 h2 h3, of "Some ''gh-token''"] by blast
  have c: "calls (snd ?R) = [DbSelect ''demo-1'',
          EnterDeleteGitHubRepo ''https://github.com/octo/segment-demo-acme'',
          GitHubDelete ''octo'' ''segment-demo-acme'',
          DbDelete ''demo-1'']"
    by (simp add: delete_demo_data_found [OF h1 h2 h3] deleteRowStep_eq tr nf)
  show ?thesis using h1 h2 h3 c tg(2,3) nf by simp
qed

lemma delete_demo_found:
  assumes "k \<noteq> []" and "truthy tok" and "\<not> selectFails e (calls st) k" and "rows st k = Some d"
  shows "delete_demo e (Some k) tok st =
           deleteRowStep e k ''Demo deleted successfully'' ''Failed to delete demo''
             (st\<lparr>calls := repoStep e d tok
                    (if truthy (frontend_url d) \<or> truthy (backend_url d)
                     then snd (deleteVercelDeployments e d (calls st @ [DbSelect k]))
                     else calls st @ [DbSelect k])\<rparr>)"
  using assms by (simp add: delete_demo_def dbSelect_found truthy_def Let_def)

text \<open>
  C5. For every demo whose lookup succeeds, the calls of delete-all after the lookup are:
  first all deploy-host calls, then all code-host calls, then the database delete.
\<close>

theorem delete_all_call_order:
  assumes "k \<noteq> []" and "truthy tok" and "\<not> selectFails e (calls st) k" and "rows st k = Some d"
  shows "\<exists>tv tg. calls (snd (delete_demo e (Some k) tok st))
                   = calls st @ [DbSelect k] @ tv @ tg @ [DbDelete k]
                 \<and> list_all deploy_host_call tv \<and> list_all code_host_call tg"
proof -
  let ?t0 = "calls st @ [DbSelect k]"
  let ?t1 = "if truthy (frontend_url d) \<or> truthy (backend_url d)
             then snd (deleteVercelDeployments e d ?t0) else ?t0"
  obtain tv where tv: "?t1 = ?t0 @ tv" "list_all deploy_host_call tv"
  proof (cases "truthy (frontend_url d) \<or> truthy (backend_url d)")
    case True
    then show ?thesis using deleteVercelDeployments_trace [of e d ?t0] that by auto
  next
    case False
    then show ?thesis using that [of "[]"] by simp
  qed
  obtain tg where tg: "repoStep e d tok ?t1 = ?t1 @ tg" "list_all code_host_call tg"
    using repoStep_trace by blast
  have "calls (snd (delete_demo e (Some k) tok st)) = repoStep e d tok ?t1 @ [DbDelete k]"
    by (simp add: delete_demo_found [OF assms] deleteRowStep_eq)
  also have "\<dots> = calls st @ [DbSelect k] @ tv @ tg @ [DbDelete k]"
    using tv(1) tg(1) by simp
  finally show ?thesis using tv(2) tg(2) by blast
qed

theorem delete_all_call_order_witness:
  "''demo-1'' \<noteq> [] \<and> truthy (Some ''gh-token'')
   \<and> \<not> selectFails env_ok (calls state1) ''demo-1''
   \<and> rows state1 ''demo-1'' = Some demo1
   \<and> (\<exists>tv tg. calls (snd (delete_demo env_ok (Some ''demo-1'') (Some ''gh-token'') state1))
                 = calls state1 @ [DbSelect ''demo-1''] @ tv @ tg @ [DbDelete ''demo-1'']
               \<and> list_all deploy_host_call tv \<and> list_all code_host_call tg)
   \<and> calls (snd (delete_demo env_ok (Some ''demo-1'') (Some ''gh-token'') state1))
       = [DbSelect ''demo-1'',
          EnterDeleteVercelProject ''segment-demo-acme-frontend-k3x9'',
          VercelList Personal, VercelDelete Personal ''prj_f'',
          EnterDeleteVercelProject ''segment-demo-acme-backend-q7w2'',
          VercelList Personal, VercelDelete Personal ''prj_b'',
          EnterDeleteGitHubRepo ''https://github.com/octo/segment-demo-acme'',
          GitHubDelete ''octo'' ''segment-demo-acme'',
          DbDelete ''demo-1'']"
proof -
  have h1: "''demo-1'' \<noteq> []" by simp
  have h2: "truthy (Some ''gh-token'')" by (simp add: truthy_def)
  have h3: "\<not> selectFails env_ok (calls state1) ''demo-1''"
    by (simp add: env_ok_def)
  have h4: "rows state1 ''demo-1'' = Some demo1"
    by (simp add: state1_def)
  have c: "calls (snd (delete_demo env_ok (Some ''demo-1'') (Some ''gh-token'') state1))
       = [DbSelect ''demo-1'',
          EnterDeleteVercelProject ''segment-demo-acme-frontend-k3x9'',
          VercelList Personal, VercelDelete Personal ''prj_f'',
          EnterDeleteVercelProject ''segment-demo-acme-backend-q7w2'',
          VercelList Personal, VercelDelete Personal ''prj_b'',
          EnterDeleteGitHubRepo ''https://github.com/octo/segment-demo-acme'',
          GitHubDelete ''octo'' ''segment-demo-acme'',
          DbDelete ''demo-1'']"
    by code_simp
  show ?thesis
    using h1 h2 h3 h4 c delete_all_call_order [OF h1 h2 h3 h4] by blast
qed

lemma deleteVercelDeployments_named:
  assumes "truthy (VERCEL_TOKEN e)"
    and "projectOfUrl (frontend_url d) = Some f"
    and "projectOfUrl (backend_url d) = Some b"
  shows "deleteVercelDeployments e d t =
           (case deleteVercelProject e f t of
              (Thrown, t1) \<Rightarrow> (Thrown, t1)
            | (Returned, t1) \<Rightarrow> deleteVercelProject e b t1)"
  using assms deleteIfNamed_Some [of "frontend_url d" f] deleteIfNamed_Some [of "backend_url d" b]
  by (simp add: deleteVercelDeployments_def Let_def split: prod.splits outcome.splits)

lemma repoStep_attempt:
  assumes "github_repo_url d = Some u" and "u \<noteq> []" and "truthy tok"
  shows "\<exists>tg. repoStep e d tok t = t @ EnterDeleteGitHubRepo u # tg"
  using assms deleteGitHubRepo_trace [of e u t] by (auto simp: repoStep_def truthy_def)

text \<open>
  C1 (as amended). For a demo whose two URLs resolve to project names, with the deploy-host
  credential configured, the deletion logic invokes the frontend deletion first. When that
  deletion throws, the logic throws at once and makes no further call, so the backend
  project is not attempted; when it returns, the backend deletion is invoked next. In
  delete-all, whatever the deploy-host steps did, the repository deletion is invoked when
  the lookup succeeded, a repository URL is set and a credential was supplied. The
  deletion of one project throws exactly when the listing cannot be fetched or the
  deletion of the matched project is not answered ok.
\<close>

theorem deployments_frontend_then_backend:
  "(truthy (VERCEL_TOKEN e) \<longrightarrow> projectOfUrl (frontend_url d) = Some f \<longrightarrow>
      projectOfUrl (backend_url d) = Some b \<longrightarrow>
        (fst (deleteVercelProject e f t) = Thrown \<longrightarrow>
           deleteVercelDeployments e d t = (Thrown, snd (deleteVercelProject e f t)))
      \<and> (fst (deleteVercelProject e f t) = Returned \<longrightarrow>
           deleteVercelDeployments e d t = deleteVercelProject e b (snd (deleteVercelProject e f t))
           \<and> (\<exists>tf tb. snd (deleteVercelDeployments e d t)
                         = t @ EnterDeleteVercelProject f # tf @ EnterDeleteVercelProject b # tb)))
   \<and> (k \<noteq> [] \<longrightarrow> truthy tok \<longrightarrow> \<not> selectFails e (calls st) k \<longrightarrow> rows st k = Some d \<longrightarrow>
        github_repo_url d = Some u \<longrightarrow> u \<noteq> [] \<longrightarrow>
          EnterDeleteGitHubRepo u \<in> set (calls (snd (delete_demo e (Some k) tok st))))
   \<and> ((fst (deleteVercelProject e n t') = Thrown) =
        (case fetchProjects e (t' @ [EnterDeleteVercelProject n]) of
           (None, t1) \<Rightarrow> True
         | (Some (ps, ep), t1) \<Rightarrow>
             (case findProjectFuzzy n ps of
                None \<Rightarrow> False
              | Some p \<Rightarrow>
                  deleteProject e t1 (deleteScope ep (VERCEL_TEAM_ID e)) (ident p) \<noteq> ReplyOk)))"
proof (intro conjI impI)
  assume a: "truthy (VERCEL_TOKEN e)" "projectOfUrl (frontend_url d) = Some f"
    "projectOfUrl (backend_url d) = Some b"
  assume "fst (deleteVercelProject e f t) = Thrown"
  then show "deleteVercelDeployments e d t = (Thrown, snd (deleteVercelProject e f t))"
    by (cases "deleteVercelProject e f t") (simp add: deleteVercelDeployments_named [OF a])
next
  assume a: "truthy (VERCEL_TOKEN e)" "projectOfUrl (frontend_url d) = Some f"
    "projectOfUrl (backend_url d) = Some b"
  assume r: "fst (deleteVercelProject e f t) = Returned"
  then show eq: "deleteVercelDeployments e d t =
      deleteVercelProject e b (snd (deleteVercelProject e f t))"
    by (cases "deleteVercelProject e f t") (simp add: deleteVercelDeployments_named [OF a])
  obtain tf where tf: "snd (deleteVercelProject e f t) = t @ EnterDeleteVercelProject f # tf"
    using deleteVercelProject_trace by blast
  obtain tb where "snd (deleteVercelProject e b (snd (deleteVercelProject e f t)))
      = snd (deleteVercelProject e f t) @ EnterDeleteVercelProject b # tb"
    using deleteVercelProject_trace by blast
  with tf eq show "\<exists>tf tb. snd (deleteVercelDeployments e d t)
                         = t @ EnterDeleteVercelProject f # tf @ EnterDeleteVercelProject b # tb"
    by auto
next
  assume h: "k \<noteq> []" "truthy tok" "\<not> selectFails e (calls st) k" "rows st k = Some d"
    and u: "github_repo_url d = Some u" "u \<noteq> []"
  let ?t1 = "if truthy (frontend_url d) \<or> truthy (backend_url d)
             then snd (deleteVercelDeployments e d (calls st @ [DbSelect k]))
             else calls st @ [DbSelect k]"
  obtain tg where "repoStep e d tok ?t1 = ?t1 @ EnterDeleteGitHubRepo u # tg"
    using repoStep_attempt [OF u h(2)] by blast
  then show "EnterDeleteGitHubRepo u \<in> set (calls (snd (delete_demo e (Some k) tok st)))"
    by (simp add: delete_demo_found [OF h] deleteRowStep_eq)
next
  show "(fst (deleteVercelProject e n t') = Thrown) =
        (case fetchProjects e (t' @ [EnterDeleteVercelProject n]) of
           (None, t1) \<Rightarrow> True
         | (Some (ps, ep), t1) \<Rightarrow>
             (case findProjectFuzzy n ps of
                None \<Rightarrow> False
              | Some p \<Rightarrow>
                  deleteProject e t1 (deleteScope ep (VERCEL_TEAM_ID e)) (ident p) \<noteq> ReplyOk))"
    by (rule deleteVercelProject_thrown_iff)
qed

theorem deployments_frontend_then_backend_witness:
  "truthy (VERCEL_TOKEN env_refusing)
   \<and> projectOfUrl (frontend_url demo1) = Some ''segment-demo-acme-frontend-k3x9''
   \<and> projectOfUrl (backend_url demo1) = Some ''segment-demo-acme-backend-q7w2''
   \<and> fst (deleteVercelProject env_refusing ''segment-demo-acme-frontend-k3x9'' []) = Thrown
   \<and> deleteVercelDeployments env_refusing demo1 [] =
        (Thrown, snd (deleteVercelProject env_refusing ''segment-demo-acme-frontend-k3x9'' []))
   \<and> truthy (VERCEL_TOKEN env_ok)
   \<and> fst (deleteVercelProject env_ok ''segment-demo-acme-frontend-k3x9'' []) = Returned
   \<and> deleteVercelDeployments env_ok demo1 [] =
        deleteVercelProject env_ok ''segment-demo-acme-backend-q7w2''
          (snd (deleteVercelProject env_ok ''segment-demo-acme-frontend-k3x9'' []))
   \<and> ''demo-1'' \<noteq> [] \<and> truthy (Some ''gh-token'')
   \<and> \<not> selectFails env_refusing (calls state1) ''demo-1''
   \<and> rows state1 ''demo-1'' = Some demo1
   \<and> github_repo_url demo1 = Some ''https://github.com/octo/segment-demo-acme''
   \<and> EnterDeleteGitHubRepo ''https://github.com/octo/segment-demo-acme''
        \<in> set (calls (snd (delete_demo env_refusing (Some ''demo-1'') (Some ''gh-token'') state1)))"
proof -
  let ?f = "''segment-demo-acme-frontend-k3x9''"
  let ?b = "''segment-demo-acme-backend-q7w2''"
  let ?u = "''https://github.com/octo/segment-demo-acme''"
  have t1: "truthy (VERCEL_TOKEN env_refusing)" and t2: "truthy (VERCEL_TOKEN env_ok)"
    by (simp_all add: env_refusing_def env_ok_def truthy_def)
  have pf: "projectOfUrl (frontend_url demo1) = Some ?f" by code_simp
  have pb: "projectOfUrl (backend_url demo1) = Some ?b" by code_simp
  have th: "fst (deleteVercelProject env_refusing ?f []) = Thrown" by code_simp
  have rt: "fst (deleteVercelProject env_ok ?f []) = Returned" by code_simp
  have k: "''demo-1'' \<noteq> []" by simp
  have tk: "truthy (Some ''gh-token'')" by (simp add: truthy_def)
  have sf: "\<not> selectFails env_refusing (calls state1) ''demo-1''"
    by (simp add: env_refusing_def env_ok_def)
  have rw: "rows state1 ''demo-1'' = Some demo1" by (simp add: state1_def)
  have gu: "github_repo_url demo1 = Some ?u" by (simp add: demo1_def)
  have un: "?u \<noteq> []" by simp
  have c1: "deleteVercelDeployments env_refusing demo1 [] =
        (Thrown, snd (deleteVercelProject env_refusing ?f []))"
    using deployments_frontend_then_backend
      [of env_refusing demo1 ?f ?b "[]" "''demo-1''" "Some ''gh-token''" state1 ?u]
      t1 pf pb th by blast
  have c2: "deleteVercelDeployments env_ok demo1 [] =
        deleteVercelProject env_ok ?b (snd (deleteVercelProject env_ok ?f []))"
    using deployments_frontend_then_backend
      [of env_ok demo1 ?f ?b "[]" "''demo-1''" "Some ''gh-token''" state1 ?u]
      t2 pf pb rt by blast
  have c3: "EnterDeleteGitHubRepo ?u
        \<in> set (calls (snd (delete_demo env_refusing (Some ''demo-1'') (Some ''gh-token'') state1)))"
    using deployments_frontend_then_backend
      [of env_refusing demo1 ?f ?b "[]" "''demo-1''" "Some ''gh-token''" state1 ?u]
      k tk sf rw gu un by blast
  show ?thesis
    using t1 pf pb th c1 t2 rt c2 k tk sf rw gu c3 by blast
qed

text \<open>
  The claim as stated fails: both URLs are set, the deploy host refuses the deletion of the
  frontend project, and the backend project is never attempted.
\<close>

theorem frontend_failure_blocks_backend_counterexample:
  "truthy (frontend_url demo1) \<and> truthy (backend_url demo1)
   \<and> projectOfUrl (backend_url demo1) = Some ''segment-demo-acme-backend-q7w2''
   \<and> deleteVercelDeployments env_refusing demo1 [] =
        (Thrown, [EnterDeleteVercelProject ''segment-demo-acme-frontend-k3x9'',
                  VercelList Personal, VercelDelete Personal ''prj_f''])
   \<and> EnterDeleteVercelProject ''segment-demo-acme-backend-q7w2''
        \<notin> set (snd (deleteVercelDeployments env_refusing demo1 []))"
  by code_simp

lemma delete_vercel_deployments_found:
  assumes "k \<noteq> []" and "\<not> selectFails e (calls st) k" and "rows st k = Some d"
  shows "delete_vercel_deployments e (Some k) st =
           (if truthy (frontend_url d) \<or> truthy (backend_url d)
            then (case deleteVercelDeployments e d (calls st @ [DbSelect k]) of
                    (Returned, t) \<Rightarrow>
                      (Response 200 (Success ''Vercel deployments deleted successfully''),
                       st\<lparr>calls := t\<rparr>)
                  | (Thrown, t) \<Rightarrow>
                      (Response 500 (Failure ''Failed to delete Vercel deployments''),
                       st\<lparr>calls := t\<rparr>))
            else (Response 200 (Success ''No Vercel deployments found''),
                  st\<lparr>calls := calls st @ [DbSelect k]\<rparr>))"
  using assms
  by (simp add: delete_vercel_deployments_def dbSelect_found split: prod.splits outcome.splits)

lemma delete_vercel_deployments_rows:
  "rows (snd (delete_vercel_deployments e demoId st)) = rows st"
  by (auto simp: delete_vercel_deployments_def dbSelect_def
      split: option.splits prod.splits outcome.splits)

text \<open>
  C2 (as amended). When the record lookup succeeds, delete-deployments answers 200 when no
  result URL is set or the deletion logic returns, and 500 with
  \<open>Failed to delete Vercel deployments\<close> when the deletion logic throws; the record store is
  left as it was. The deletion of one project throws exactly when the listing cannot be
  fetched or the deletion of the matched project is not answered ok; a project that is not
  found never throws, whatever the direct deletion by name answers.
\<close>

theorem delete_deployments_outcome:
  assumes "k \<noteq> []" and "\<not> selectFails e (calls st) k" and "rows st k = Some d"
  shows "fst (delete_vercel_deployments e (Some k) st) =
           (if \<not> (truthy (frontend_url d) \<or> truthy (backend_url d))
            then Response 200 (Success ''No Vercel deployments found'')
            else if fst (deleteVercelDeployments e d (calls st @ [DbSelect k])) = Thrown
            then Response 500 (Failure ''Failed to delete Vercel deployments'')
            else Response 200 (Success ''Vercel deployments deleted successfully''))
         \<and> rows (snd (delete_vercel_deployments e (Some k) st)) = rows st
         \<and> ((fst (deleteVercelProject e n t) = Thrown) =
              (case fetchProjects e (t @ [EnterDeleteVercelProject n]) of
                 (None, t1) \<Rightarrow> True
               | (Some (ps, ep), t1) \<Rightarrow>
                   (case findProjectFuzzy n ps of
                      None \<Rightarrow> False
                    | Some p \<Rightarrow>
                        deleteProject e t1 (deleteScope ep (VERCEL_TEAM_ID e)) (ident p) \<noteq> ReplyOk)))"
proof (intro conjI)
  show "fst (delete_vercel_deployments e (Some k) st) =
           (if \<not> (truthy (frontend_url d) \<or> truthy (backend_url d))
            then Response 200 (Success ''No Vercel deployments found'')
            else if fst (deleteVercelDeployments e d (calls st @ [DbSelect k])) = Thrown
            then Response 500 (Failure ''Failed to delete Vercel deployments'')
            else Response 200 (Success ''Vercel deployments deleted successfully''))"
    by (cases "deleteVercelDeployments e d (calls st @ [DbSelect k])")
      (auto simp: delete_vercel_deployments_found [OF assms] split: outcome.splits)
  show "rows (snd (delete_vercel_deployments e (Some k) st)) = rows st"
    by (rule delete_vercel_deployments_rows)
  show "(fst (deleteVercelProject e n t) = Thrown) =
              (case fetchProjects e (t @ [EnterDeleteVercelProject n]) of
                 (None, t1) \<Rightarrow> True
               | (Some (ps, ep), t1) \<Rightarrow>
                   (case findProjectFuzzy n ps of
                      None \<Rightarrow> False
                    | Some p \<Rightarrow>
                        deleteProject e t1 (deleteScope ep (VERCEL_TEAM_ID e)) (ident p) \<noteq> ReplyOk))"
    by (rule deleteVercelProject_thrown_iff)
qed

theorem delete_deployments_outcome_witness:
  "''demo-1'' \<noteq> []
   \<and> \<not> selectFails env_cleared (calls state1) ''demo-1''
   \<and> rows state1 ''demo-1'' = Some demo1
   \<and> fst (deleteVercelDeployments env_cleared demo1 (calls state1 @ [DbSelect ''demo-1''])) = Returned
   \<and> fst (delete_vercel_deployments env_cleared (Some ''demo-1'') state1)
       = Response 200 (Success ''Vercel deployments deleted successfully'')
   \<and> rows (snd (delete_vercel_deployments env_cleared (Some ''demo-1'') state1)) = rows state1"
proof -
  have h1: "''demo-1'' \<noteq> []" by simp
  have h2: "\<not> selectFails env_cleared (calls state1) ''demo-1''"
    by (simp add: env_cleared_def env_ok_def)
  have h3: "rows state1 ''demo-1'' = Some demo1" by (simp add: state1_def)
  have u: "truthy (frontend_url demo1)" by (simp add: demo1_def truthy_def)
  have r: "fst (deleteVercelDeployments env_cleared demo1 (calls state1 @ [DbSelect ''demo-1''])) = Returned"
    by code_simp
  show ?thesis
    using h1 h2 h3 u r delete_deployments_outcome [OF h1 h2 h3] by simp
qed

text \<open>
  The claim as stated fails: the lookup succeeds, the deploy host refuses the deletion of
  the frontend project, and the response has status 500.
\<close>

theorem deploy_failure_answers_500_counterexample:
  "\<not> selectFails env_refusing (calls state1) ''demo-1''
   \<and> rows state1 ''demo-1'' = Some demo1
   \<and> fst (delete_vercel_deployments env_refusing (Some ''demo-1'') state1)
       = Response 500 (Failure ''Failed to delete Vercel deployments'')"
  by code_simp

lemma deleteVercelProject_not_found:
  "fetchProjects e (t @ [EnterDeleteVercelProject n]) = (Some (ps, ep), t1) \<Longrightarrow>
   findProjectFuzzy n ps = None \<Longrightarrow> fst (deleteVercelProject e n t) = Returned"
  by (simp add: deleteVercelProject_def)

lemma deleteIfNamed_cleared:
  assumes "\<forall>t. \<exists>b. listProjects e t Personal = ListOk b"
    and "\<forall>t sc b. listProjects e t sc = ListOk b \<longrightarrow>
           (\<forall>n. pn = Some n \<longrightarrow> findProjectFuzzy n (projects_of b) = None)"
  shows "fst (deleteIfNamed e pn t) = Returned"
proof (cases "truthy pn")
  case False
  then show ?thesis by (simp add: deleteIfNamed_def)
next
  case True
  then obtain n where n: "pn = Some n" by (cases pn) (simp_all add: truthy_def)
  obtain ps ep t1 t' sc b where
    f: "fetchProjects e (t @ [EnterDeleteVercelProject n]) = (Some (ps, ep), t1)"
    and l: "listProjects e t' sc = ListOk b" "ps = projects_of b"
    using fetchProjects_reachable [OF assms(1)] by blast
  have "findProjectFuzzy n (projects_of b) = None"
    by (rule assms(2) [rule_format, OF l(1) n])
  with l(2) have "findProjectFuzzy n ps = None" by simp
  with f have "fst (deleteVercelProject e n t) = Returned"
    by (rule deleteVercelProject_not_found)
  with True n show ?thesis by (simp add: deleteIfNamed_def)
qed

lemma deleteVercelDeployments_cleared:
  assumes "\<forall>t. \<exists>b. listProjects e t Personal = ListOk b"
    and "\<forall>t sc b n. listProjects e t sc = ListOk b \<longrightarrow>
           projectOfUrl (frontend_url d) = Some n \<or> projectOfUrl (backend_url d) = Some n \<longrightarrow>
           findProjectFuzzy n (projects_of b) = None"
  shows "fst (deleteVercelDeployments e d t) = Returned"
proof (cases "truthy (VERCEL_TOKEN e)")
  case False
  then show ?thesis by (simp add: deleteVercelDeployments_def)
next
  case True
  have fr: "\<forall>t sc b. listProjects e t sc = ListOk b \<longrightarrow>
      (\<forall>n. projectOfUrl (frontend_url d) = Some n \<longrightarrow> findProjectFuzzy n (projects_of b) = None)"
  proof (intro allI impI)
    fix t sc b n
    assume "listProjects e t sc = ListOk b" and "projectOfUrl (frontend_url d) = Some n"
    then show "findProjectFuzzy n (projects_of b) = None"
      using assms(2) [rule_format, of t sc b n] by simp
  qed
  have bk: "\<forall>t sc b. listProjects e t sc = ListOk b \<longrightarrow>
      (\<forall>n. projectOfUrl (backend_url d) = Some n \<longrightarrow> findProjectFuzzy n (projects_of b) = None)"
  proof (intro allI impI)
    fix t sc b n
    assume "listProjects e t sc = ListOk b" and "projectOfUrl (backend_url d) = Some n"
    then show "findProjectFuzzy n (projects_of b) = None"
      using assms(2) [rule_format, of t sc b n] by simp
  qed
  have a: "\<And>t. fst (deleteIfNamed e (projectOfUrl (frontend_url d)) t) = Returned"
    by (rule deleteIfNamed_cleared [OF assms(1) fr])
  have b: "\<And>t. fst (deleteIfNamed e (projectOfUrl (backend_url d)) t) = Returned"
    by (rule deleteIfNamed_cleared [OF assms(1) bk])
  obtain o1 t1 where f: "deleteIfNamed e (projectOfUrl (frontend_url d)) t = (o1, t1)"
    by (cases "deleteIfNamed e (projectOfUrl (frontend_url d)) t")
  with a [of t] have "o1 = Returned" by simp
  with True f b [of t1] show ?thesis
    by (simp add: deleteVercelDeployments_def Let_def)
qed

lemma test_vercel_rows: "rows (snd (test_vercel e st)) = rows st"
  by (auto simp: test_vercel_def Let_def split: option.splits prod.splits list_reply.splits)

lemma delete_demo_data_second_call:
  assumes "fst (delete_demo_data e (Some k) tok st) = Response 200 (Success m)"
  shows "k \<noteq> [] \<and> rows (snd (delete_demo_data e (Some k) tok st)) k = None"
  using assms
  by (auto simp: delete_demo_data_def dbSelect_def deleteRowStep_eq
      split: if_splits option.splits prod.splits)

lemma delete_demo_second_call:
  assumes "fst (delete_demo e (Some k) tok st) = Response 200 (Success m)"
  shows "k \<noteq> [] \<and> truthy tok \<and> rows (snd (delete_demo e (Some k) tok st)) k = None"
  using assms
  by (auto simp: delete_demo_def dbSelect_def deleteRowStep_eq Let_def truthy_def
      split: if_splits option.splits prod.splits)

lemma dbSelect_missing:
  "rows st k = None \<Longrightarrow> dbSelect e' k st = (None, st\<lparr>calls := calls st @ [DbSelect k]\<rparr>)"
  by (simp add: dbSelect_def)

lemma delete_demo_data_missing:
  "k \<noteq> [] \<Longrightarrow> rows s k = None \<Longrightarrow>
   delete_demo_data e (Some k) tok s =
     (Response 404 (Failure ''Demo not found''), s\<lparr>calls := calls s @ [DbSelect k]\<rparr>)"
  by (simp add: delete_demo_data_def dbSelect_missing)

lemma delete_demo_missing:
  "k \<noteq> [] \<Longrightarrow> truthy tok \<Longrightarrow> rows s k = None \<Longrightarrow>
   delete_demo e (Some k) tok s =
     (Response 404 (Failure ''Demo not found''), s\<lparr>calls := calls s @ [DbSelect k]\<rparr>)"
  by (simp add: delete_demo_def dbSelect_missing truthy_def)

text \<open>
  C3 (as amended). Delete-data and delete-all are not repeatable: after a call that
  answered success, the record is gone, and a second call for the same demo id, in any
  environment, answers 404 \<open>Demo not found\<close> after the lookup alone. Delete-deployments
  and test-provider-connection never change the record store, so a repeated call finds
  the same record; and delete-deployments answers 200 on every call whose lookup succeeds,
  whose personal listing can be fetched and whose listings hold no project matching either
  resolved name, whatever the direct deletion by name answers.
\<close>

theorem repeated_deprovisioning_calls:
  "(fst (delete_demo_data e (Some k) tok st) = Response 200 (Success ''Demo data deleted successfully'') \<longrightarrow>
      delete_demo_data e' (Some k) tok' (snd (delete_demo_data e (Some k) tok st))
        = (Response 404 (Failure ''Demo not found''),
           (snd (delete_demo_data e (Some k) tok st))
             \<lparr>calls := calls (snd (delete_demo_data e (Some k) tok st)) @ [DbSelect k]\<rparr>))
   \<and> (fst (delete_demo e (Some k) tok st) = Response 200 (Success ''Demo deleted successfully'') \<longrightarrow>
      delete_demo e' (Some k) tok (snd (delete_demo e (Some k) tok st))
        = (Response 404 (Failure ''Demo not found''),
           (snd (delete_demo e (Some k) tok st))
             \<lparr>calls := calls (snd (delete_demo e (Some k) tok st)) @ [DbSelect k]\<rparr>))
   \<and> rows (snd (delete_vercel_deployments e demoId st)) = rows st
   \<and> rows (snd (test_vercel e st)) = rows st
   \<and> (k \<noteq> [] \<longrightarrow> \<not> selectFails e (calls st) k \<longrightarrow> rows st k = Some d \<longrightarrow>
        (\<forall>t. \<exists>b. listProjects e t Personal = ListOk b) \<longrightarrow>
        (\<forall>t sc b n. listProjects e t sc = ListOk b \<longrightarrow>
           projectOfUrl (frontend_url d) = Some n \<or> projectOfUrl (backend_url d) = Some n \<longrightarrow>
           findProjectFuzzy n (projects_of b) = None) \<longrightarrow>
        status (fst (delete_vercel_deployments e (Some k) st)) = 200)"
proof (intro conjI impI)
  assume a: "fst (delete_demo_data e (Some k) tok st) = Response 200 (Success ''Demo data deleted successfully'')"
  let ?st' = "snd (delete_demo_data e (Some k) tok st)"
  from delete_demo_data_second_call [OF a] have k: "k \<noteq> []" and r: "rows ?st' k = None" by simp_all
  show "delete_demo_data e' (Some k) tok' ?st'
        = (Response 404 (Failure ''Demo not found''), ?st'\<lparr>calls := calls ?st' @ [DbSelect k]\<rparr>)"
    by (rule delete_demo_data_missing [OF k r])
next
  assume a: "fst (delete_demo e (Some k) tok st) = Response 200 (Success ''Demo deleted successfully'')"
  let ?st' = "snd (delete_demo e (Some k) tok st)"
  from delete_demo_second_call [OF a]
  have k: "k \<noteq> []" and t: "truthy tok" and r: "rows ?st' k = None" by simp_all
  show "delete_demo e' (Some k) tok ?st'
        = (Response 404 (Failure ''Demo not found''), ?st'\<lparr>calls := calls ?st' @ [DbSelect k]\<rparr>)"
    by (rule delete_demo_missing [OF k t r])
next
  show "rows (snd (delete_vercel_deployments e demoId st)) = rows st"
    by (rule delete_vercel_deployments_rows)
next
  show "rows (snd (test_vercel e st)) = rows st"
    by (rule test_vercel_rows)
next
  assume h: "k \<noteq> []" "\<not> selectFails e (calls st) k" "rows st k = Some d"
    and l1: "\<forall>t. \<exists>b. listProjects e t Personal = ListOk b"
    and l2: "\<forall>t sc b n. listProjects e t sc = ListOk b \<longrightarrow>
           projectOfUrl (frontend_url d) = Some n \<or> projectOfUrl (backend_url d) = Some n \<longrightarrow>
           findProjectFuzzy n (projects_of b) = None"
  have "fst (deleteVercelDeployments e d (calls st @ [DbSelect k])) = Returned"
    by (rule deleteVercelDeployments_cleared [OF l1 l2])
  then show "status (fst (delete_vercel_deployments e (Some k) st)) = 200"
    by (cases "deleteVercelDeployments e d (calls st @ [DbSelect k])")
      (simp add: delete_vercel_deployments_found [OF h])
qed

theorem repeated_deprovisioning_calls_witness:
  "fst (delete_demo_data env_ok (Some ''demo-1'') (Some ''gh-token'') state1)
     = Response 200 (Success ''Demo data deleted successfully'')
   \<and> fst (delete_demo_data env_ok (Some ''demo-1'') (Some ''gh-token'')
            (snd (delete_demo_data env_ok (Some ''demo-1'') (Some ''gh-token'') state1)))
     = Response 404 (Failure ''Demo not found'')
   \<and> fst (delete_demo env_ok (Some ''demo-1'') (Some ''gh-token'') state1)
     = Response 200 (Success ''Demo deleted successfully'')
   \<and> fst (delete_demo env_ok (Some ''demo-1'') (Some ''gh-token'')
            (snd (delete_demo env_ok (Some ''demo-1'') (Some ''gh-token'') state1)))
     = Response 404 (Failure ''Demo not found'')
   \<and> ''demo-1'' \<noteq> []
   \<and> \<not> selectFails env_cleared (calls state1) ''demo-1''
   \<and> rows state1 ''demo-1'' = Some demo1
   \<and> status (fst (delete_vercel_deployments env_cleared (Some ''demo-1'') state1)) = 200"
proof -
  let ?k = "''demo-1''"
  let ?tok = "Some ''gh-token''"
  note T = repeated_deprovisioning_calls [of env_ok ?k ?tok state1 env_ok ?tok None demo1]
  note U = repeated_deprovisioning_calls [of env_cleared ?k ?tok state1 env_cleared ?tok None demo1]
  have a1: "fst (delete_demo_data env_ok (Some ?k) ?tok state1)
     = Response 200 (Success ''Demo data deleted successfully'')" by code_simp
  have a2: "fst (delete_demo env_ok (Some ?k) ?tok state1)
     = Response 200 (Success ''Demo deleted successfully'')" by code_simp
  have c1: "fst (delete_demo_data env_ok (Some ?k) ?tok (snd (delete_demo_data env_ok (Some ?k) ?tok state1)))
     = Response 404 (Failure ''Demo not found'')"
    using T a1 by simp
  have c2: "fst (delete_demo env_ok (Some ?k) ?tok (snd (delete_demo env_ok (Some ?k) ?tok state1)))
     = Response 404 (Failure ''Demo not found'')"
    using T a2 by simp
  have h1: "?k \<noteq> []" by simp
  have h2: "\<not> selectFails env_cleared (calls state1) ?k"
    by (simp add: env_cleared_def env_ok_def)
  have h3: "rows state1 ?k = Some demo1" by (simp add: state1_def)
  have l1: "\<forall>t. \<exists>b. listProjects env_cleared t Personal = ListOk b"
    by (simp add: env_cleared_def env_ok_def)
  have l2: "\<forall>t sc b n. listProjects env_cleared t sc = ListOk b \<longrightarrow>
           projectOfUrl (frontend_url demo1) = Some n \<or> projectOfUrl (backend_url demo1) = Some n \<longrightarrow>
           findProjectFuzzy n (projects_of b) = None"
    by (auto simp: env_cleared_def env_ok_def projects_of_def findProjectFuzzy_def Let_def)
  have c3: "status (fst (delete_vercel_deployments env_cleared (Some ?k) state1)) = 200"
    using U h1 h2 h3 l1 l2 by blast
  show ?thesis using a1 c1 a2 c2 h1 h2 h3 c3 by blast
qed

text \<open>
  The claim as stated fails for delete-data: the first call answers success, the second
  call immediately after it answers 404.
\<close>

theorem delete_data_twice_counterexample:
  "fst (delete_demo_data env_ok (Some ''demo-1'') (Some ''gh-token'') state1)
     = Response 200 (Success ''Demo data deleted successfully'')
   \<and> fst (delete_demo_data env_ok (Some ''demo-1'') (Some ''gh-token'')
            (snd (delete_demo_data env_ok (Some ''demo-1'') (Some ''gh-token'') state1)))
     = Response 404 (Failure ''Demo not found'')"
  by code_simp

text \<open>
  C8 (as amended). The delete-data handler of the server requires the demo id only: without
  it the request is answered 400 before any call. With a demo id and without the code-host
  credential the request is not rejected: after the lookup no code-host call is made, the
  database delete is attempted, and the answer is 200, or 500 when that delete fails. A
  missing credential is answered 400 before any call by the client's proxy route and by
  the legacy delete-all handler only.
\<close>

theorem delete_data_requires_only_demo_id:
  "(\<not> truthy demoId \<longrightarrow>
      delete_demo_data e demoId tok st = (Response 400 (Failure ''Demo ID is required''), st))
   \<and> (k \<noteq> [] \<longrightarrow> \<not> truthy tok \<longrightarrow> \<not> selectFails e (calls st) k \<longrightarrow> rows st k = Some d \<longrightarrow>
        calls (snd (delete_demo_data e (Some k) tok st)) = calls st @ [DbSelect k, DbDelete k]
        \<and> fst (delete_demo_data e (Some k) tok st)
            = (if deleteFails e (calls st @ [DbSelect k]) k
               then Response 500 (Failure ''Failed to delete demo data'')
               else Response 200 (Success ''Demo data deleted successfully'')))
   \<and> (truthy demoId \<longrightarrow> \<not> truthy tok \<longrightarrow>
        client_delete_demo_data reachable e demoId tok st
          = (Response 400 (Failure ''GitHub token is required''), st))
   \<and> (\<not> truthy tok \<longrightarrow>
        delete_demo e demoId tok st
          = (Response 400 (Failure ''Demo ID and GitHub token are required''), st))"
proof (intro conjI impI)
  assume "\<not> truthy demoId"
  then show "delete_demo_data e demoId tok st = (Response 400 (Failure ''Demo ID is required''), st)"
    by (cases demoId) (simp_all add: delete_demo_data_def truthy_def)
next
  assume h: "k \<noteq> []" "\<not> selectFails e (calls st) k" "rows st k = Some d" and t: "\<not> truthy tok"
  from t have rs: "\<And>t. repoStep e d tok t = t" by (simp add: repoStep_def)
  show "calls (snd (delete_demo_data e (Some k) tok st)) = calls st @ [DbSelect k, DbDelete k]"
    by (simp add: delete_demo_data_found [OF h] deleteRowStep_eq rs)
  show "fst (delete_demo_data e (Some k) tok st)
            = (if deleteFails e (calls st @ [DbSelect k]) k
               then Response 500 (Failure ''Failed to delete demo data'')
               else Response 200 (Success ''Demo data deleted successfully''))"
    by (simp add: delete_demo_data_found [OF h] deleteRowStep_eq rs)
next
  assume "truthy demoId" and "\<not> truthy tok"
  then show "client_delete_demo_data reachable e demoId tok st
          = (Response 400 (Failure ''GitHub token is required''), st)"
    by (simp add: client_delete_demo_data_def)
next
  assume "\<not> truthy tok"
  then show "delete_demo e demoId tok st
          = (Response 400 (Failure ''Demo ID and GitHub token are required''), st)"
    by (simp add: delete_demo_def)
qed

theorem delete_data_requires_only_demo_id_witness:
  "\<not> truthy (Some [])
   \<and> delete_demo_data env_ok (Some []) None state1
       = (Response 400 (Failure ''Demo ID is required''), state1)
   \<and> ''demo-1'' \<noteq> [] \<and> \<not> truthy None
   \<and> \<not> selectFails env_ok (calls state1) ''demo-1''
   \<and> rows state1 ''demo-1'' = Some demo1
   \<and> calls (snd (delete_demo_data env_ok (Some ''demo-1'') None state1))
       = calls state1 @ [DbSelect ''demo-1'', DbDelete ''demo-1'']
   \<and> fst (delete_demo_data env_ok (Some ''demo-1'') None state1)
       = Response 200 (Success ''Demo data deleted successfully'')
   \<and> truthy (Some ''demo-1'')
   \<and> client_delete_demo_data True env_ok (Some ''demo-1'') None state1
       = (Response 400 (Failure ''GitHub token is required''), state1)
   \<and> delete_demo env_ok (Some ''demo-1'') None state1
       = (Response 400 (Failure ''Demo ID and GitHub token are required''), state1)"
proof -
  note T = delete_data_requires_only_demo_id
    [of "Some []" env_ok None state1 "''demo-1''" demo1 True]
  note U = delete_data_requires_only_demo_id
    [of "Some ''demo-1''" env_ok None state1 "''demo-1''" demo1 True]
  have h0: "\<not> truthy (Some [])" and h1: "''demo-1'' \<noteq> []" and h2: "\<not> truthy None"
    and h5: "truthy (Some ''demo-1'')"
    by (simp_all add: truthy_def)
  have h3: "\<not> selectFails env_ok (calls state1) ''demo-1''" by (simp add: env_ok_def)
  have h4: "rows state1 ''demo-1'' = Some demo1" by (simp add: state1_def)
  have nf: "\<not> deleteFails env_ok (calls state1 @ [DbSelect ''demo-1'']) ''demo-1''"
    by (simp add: env_ok_def)
  have c0: "delete_demo_data env_ok (Some []) None state1
       = (Response 400 (Failure ''Demo ID is required''), state1)"
    using T h0 by blast
  have c1: "calls (snd (delete_demo_data env_ok (Some ''demo-1'') None state1))
       = calls state1 @ [DbSelect ''demo-1'', DbDelete ''demo-1'']"
    using U h1 h2 h3 h4 by blast
  have c2: "fst (delete_demo_data env_ok (Some ''demo-1'') None state1)
       = Response 200 (Success ''Demo data deleted successfully'')"
    using U h1 h2 h3 h4 nf by simp
  have c3: "client_delete_demo_data True env_ok (Some ''demo-1'') None state1
       = (Response 400 (Failure ''GitHub token is required''), state1)"
    using U h5 h2 by blast
  have c4: "delete_demo env_ok (Some ''demo-1'') None state1
       = (Response 400 (Failure ''Demo ID and GitHub token are required''), state1)"
    using U h2 by blast
  show ?thesis using h0 c0 h1 h2 h3 h4 c1 c2 h5 c3 c4 by blast
qed

text \<open>
  The claim as stated fails: without the credential the request is answered 200, after a
  lookup and a database delete that removed the row.
\<close>

theorem delete_data_without_credential_counterexample:
  "\<not> truthy None
   \<and> fst (delete_demo_data env_ok (Some ''demo-1'') None state1)
       = Response 200 (Success ''Demo data deleted successfully'')
   \<and> calls (snd (delete_demo_data env_ok (Some ''demo-1'') None state1))
       = [DbSelect ''demo-1'', DbDelete ''demo-1'']
   \<and> rows (snd (delete_demo_data env_ok (Some ''demo-1'') None state1)) ''demo-1'' = None"
  by code_simp

end
